theory Spec2Isabelle
  imports Complex_Main "HOL-Library.Monad_Syntax"
begin

section \<open>Python values\<close>

subsection \<open>JSON values\<close>

text \<open>
  What \<^verbatim>\<open>request.json()\<close> returns, and what the translators build: \<^verbatim>\<open>None\<close>, a \<^verbatim>\<open>bool\<close>,
  an \<^verbatim>\<open>int\<close>, a \<^verbatim>\<open>float\<close>, a \<^verbatim>\<open>str\<close>, a \<^verbatim>\<open>list\<close> or a \<^verbatim>\<open>dict\<close> with string
  keys, kept in the order of their insertion. A \<^verbatim>\<open>float\<close> is a finite number, written as
  the real number it stands for; the code below only compares floats, and a comparison of two
  floats is the comparison of these numbers. A character of a string is one code point;
  \<open>char\<close> has the code points up to 255.
\<close>

datatype json =
    JNull
  | JBool bool
  | JInt int
  | JFloat real
  | JStr string
  | JArr "json list"
  | JObj "(string \<times> json) list"

text \<open>
  The parts of Python that the code calls and that are not written in this repository, as
  parameters of the model: \<^verbatim>\<open>repr\<close> of a float (which \<^verbatim>\<open>json.dumps\<close> prints), \<^verbatim>\<open>str\<close> of
  a value that is not a string, the hexadecimal digits of the \<open>n\<close>-th \<^verbatim>\<open>uuid.uuid4()\<close>
  drawn, and \<^verbatim>\<open>json.loads\<close> (\<open>None\<close> where it raises \<^verbatim>\<open>JSONDecodeError\<close>).
\<close>

record python =
  float_repr :: "real \<Rightarrow> string"
  str_of :: "json \<Rightarrow> string"
  uuid4 :: "nat \<Rightarrow> string"
  json_loads :: "string \<Rightarrow> json option"

subsection \<open>Operations that can raise\<close>

text \<open>
  A function that can raise returns an option: \<open>None\<close> is an exception that leaves the
  function (\<^verbatim>\<open>AttributeError\<close>, \<^verbatim>\<open>TypeError\<close>).
\<close>

text \<open>\<^verbatim>\<open>d.get(key, default)\<close>: only a dict has the method.\<close>

fun py_get :: "json \<Rightarrow> string \<Rightarrow> json \<Rightarrow> json option" where
  "py_get (JObj kvs) key dflt = Some (case map_of kvs key of None \<Rightarrow> dflt | Some v \<Rightarrow> v)"
| "py_get v key dflt = None"

text \<open>
  \<^verbatim>\<open>for x in v\<close>: the elements of a list, the characters of a string, the keys of a dict;
  anything else is not iterable.
\<close>

fun py_iter :: "json \<Rightarrow> json list option" where
  "py_iter (JArr xs) = Some xs"
| "py_iter (JStr s) = Some (map (\<lambda>c. JStr [c]) s)"
| "py_iter (JObj kvs) = Some (map (\<lambda>kv. JStr (fst kv)) kvs)"
| "py_iter v = None"

text \<open>\<^verbatim>\<open>len(v)\<close>.\<close>

fun py_len :: "json \<Rightarrow> nat option" where
  "py_len (JStr s) = Some (length s)"
| "py_len (JArr xs) = Some (length xs)"
| "py_len (JObj kvs) = Some (length kvs)"
| "py_len v = None"

text \<open>The truth value of \<^verbatim>\<open>v\<close> in \<^verbatim>\<open>if v\<close>, \<^verbatim>\<open>not v\<close>, \<^verbatim>\<open>v or w\<close>.\<close>

fun truthy :: "json \<Rightarrow> bool" where
  "truthy JNull = False"
| "truthy (JBool b) = b"
| "truthy (JInt i) = (i \<noteq> 0)"
| "truthy (JFloat r) = (r \<noteq> 0)"
| "truthy (JStr s) = (s \<noteq> [])"
| "truthy (JArr xs) = (xs \<noteq> [])"
| "truthy (JObj kvs) = (kvs \<noteq> [])"

text \<open>\<^verbatim>\<open>v or w\<close>.\<close>

definition py_or :: "json \<Rightarrow> json \<Rightarrow> json" where
  "py_or v w = (if truthy v then v else w)"

text \<open>\<^verbatim>\<open>isinstance(v, str)\<close>, \<^verbatim>\<open>isinstance(v, list)\<close>, \<^verbatim>\<open>isinstance(v, dict)\<close>.\<close>

fun is_str :: "json \<Rightarrow> bool" where
  "is_str (JStr s) = True"
| "is_str v = False"

fun is_list :: "json \<Rightarrow> bool" where
  "is_list (JArr xs) = True"
| "is_list v = False"

fun is_dict :: "json \<Rightarrow> bool" where
  "is_dict (JObj kvs) = True"
| "is_dict v = False"

text \<open>
  \<^verbatim>\<open>sep.join(parts)\<close> for a list of values: \<^verbatim>\<open>TypeError\<close> when one of them is not a string.
\<close>

fun join :: "string \<Rightarrow> string list \<Rightarrow> string" where
  "join sep [] = []"
| "join sep [s] = s"
| "join sep (s # t # ts) = s @ sep @ join sep (t # ts)"

fun strings_of :: "json list \<Rightarrow> string list option" where
  "strings_of [] = Some []"
| "strings_of (JStr s # vs) = map_option ((#) s) (strings_of vs)"
| "strings_of (v # vs) = None"

definition py_join :: "string \<Rightarrow> json list \<Rightarrow> string option" where
  "py_join sep parts = map_option (join sep) (strings_of parts)"

text \<open>
  \<^verbatim>\<open>v > c\<close> for a float \<^verbatim>\<open>c\<close>: numbers compare by value, \<^verbatim>\<open>True\<close> counts as 1 and
  \<^verbatim>\<open>False\<close> as 0, and any other value raises \<^verbatim>\<open>TypeError\<close>.
\<close>

fun py_gt :: "json \<Rightarrow> real \<Rightarrow> bool option" where
  "py_gt (JInt i) c = Some (real_of_int i > c)"
| "py_gt (JFloat r) c = Some (r > c)"
| "py_gt (JBool b) c = Some ((if b then 1 else 0) > c)"
| "py_gt v c = None"

text \<open>
  A value inside an f-string, \<^verbatim>\<open>f"{v}"\<close>: a string stands for itself, another value for
  its \<^verbatim>\<open>str\<close>.
\<close>

fun format_value :: "python \<Rightarrow> json \<Rightarrow> string" where
  "format_value py (JStr s) = s"
| "format_value py v = str_of py v"

text \<open>\<^verbatim>\<open>needle in haystack\<close> for two strings.\<close>

fun starts_with :: "string \<Rightarrow> string \<Rightarrow> bool" where
  "starts_with [] s = True"
| "starts_with (c # cs) [] = False"
| "starts_with (c # cs) (d # ds) = (c = d \<and> starts_with cs ds)"

fun contains :: "string \<Rightarrow> string \<Rightarrow> bool" where
  "contains needle [] = (needle = [])"
| "contains needle (c # cs) = (starts_with needle (c # cs) \<or> contains needle cs)"

subsection \<open>\<^verbatim>\<open>json.dumps\<close>\<close>

text \<open>
  \<^verbatim>\<open>json.dumps(v)\<close> with its defaults: \<^verbatim>\<open>", "\<close> between items, \<^verbatim>\<open>": "\<close> after a key, and
  \<^verbatim>\<open>ensure_ascii\<close>, under which a quote, a backslash and every character outside the range
  from the space to the tilde are escaped.
\<close>

definition hex_digit :: "nat \<Rightarrow> char" where
  "hex_digit n = ''0123456789abcdef'' ! (n mod 16)"

definition json_escape_char :: "char \<Rightarrow> string" where
  "json_escape_char c =
     (if c = CHR 0x22 then [CHR 0x5C, CHR 0x22]
      else if c = CHR 0x5C then [CHR 0x5C, CHR 0x5C]
      else if c = CHR 0x0A then [CHR 0x5C, CHR ''n'']
      else if c = CHR 0x0D then [CHR 0x5C, CHR ''r'']
      else if c = CHR 0x09 then [CHR 0x5C, CHR ''t'']
      else if c = CHR 0x08 then [CHR 0x5C, CHR ''b'']
      else if c = CHR 0x0C then [CHR 0x5C, CHR ''f'']
      else if (of_char c :: nat) < 32 \<or> 126 < (of_char c :: nat)
      then [CHR 0x5C, CHR ''u'', CHR ''0'', CHR ''0'',
            hex_digit (of_char c div 16), hex_digit (of_char c)]
      else [c])"

definition json_string :: "string \<Rightarrow> string" where
  "json_string s = [CHR 0x22] @ concat (map json_escape_char s) @ [CHR 0x22]"

fun show_nat :: "nat \<Rightarrow> string" where
  "show_nat n =
     (if n < 10 then [hex_digit n] else show_nat (n div 10) @ [hex_digit (n mod 10)])"

definition show_int :: "int \<Rightarrow> string" where
  "show_int i = (if i < 0 then CHR ''-'' # show_nat (nat (- i)) else show_nat (nat i))"

fun json_dumps :: "python \<Rightarrow> json \<Rightarrow> string" where
  "json_dumps py JNull = ''null''"
| "json_dumps py (JBool b) = (if b then ''true'' else ''false'')"
| "json_dumps py (JInt i) = show_int i"
| "json_dumps py (JFloat r) = float_repr py r"
| "json_dumps py (JStr s) = json_string s"
| "json_dumps py (JArr xs) = ''['' @ join '', '' (map (json_dumps py) xs) @ '']''"
| "json_dumps py (JObj kvs) =
     ''{'' @ join '', '' (map (\<lambda>kv. json_string (fst kv) @ '': '' @ json_dumps py (snd kv)) kvs)
     @ ''}''"

section \<open>Streaming: OpenAI chunks to Anthropic SSE events\<close>

subsection \<open>Backend chunks\<close>

text \<open>
  The objects that \<^verbatim>\<open>_stream_anthropic_sse\<close> reads from the backend stream. An attribute
  that the code reads through \<^verbatim>\<open>getattr(x, name, None)\<close> or guards with \<^verbatim>\<open>hasattr\<close> is an
  option: \<open>None\<close> stands for a missing attribute and for the value \<^verbatim>\<open>None\<close> alike, which
  the code does not tell apart.
\<close>

record function_delta =
  fn_name :: "string option"
  fn_arguments :: "string option"

record tool_call_delta =
  tc_index :: "int option"
  tc_id :: "string option"
  tc_function :: "function_delta option"

record delta =
  delta_content :: "string option"
  delta_tool_calls :: "tool_call_delta list option"

record choice =
  choice_delta :: "delta option"
  finish_reason :: "string option"

record chunk =
  choices :: "choice list"

text \<open>
  The asynchronous iterator \<^verbatim>\<open>oai_stream\<close>: the chunks it yields, and how it stops, by
  running out (\<^verbatim>\<open>StopAsyncIteration\<close>) or by raising an exception.
\<close>

datatype stream_end = Exhausted | Raises

type_synonym oai_stream = "chunk list \<times> stream_end"

subsection \<open>Events\<close>

text \<open>
  One value per call of \<^verbatim>\<open>sse(event, data)\<close>, with the fields of \<^verbatim>\<open>data\<close> that vary. The
  constant fields (\<^verbatim>\<open>"type"\<close>, \<^verbatim>\<open>"stop_sequence": None\<close>, the empty \<^verbatim>\<open>"text"\<close> and
  \<^verbatim>\<open>"input"\<close> of a new block, the zero usage of \<^verbatim>\<open>message_start\<close>) are left out.
\<close>

datatype content_block = TextBlock | ToolUseBlock string string

datatype block_delta = TextDelta string | InputJsonDelta string

datatype sse_event =
    MessageStart string json
  | Ping
  | ContentBlockStart nat content_block
  | ContentBlockDelta nat block_delta
  | ContentBlockStop nat
  | MessageDelta string nat
  | MessageStop

fun event_name :: "sse_event \<Rightarrow> string" where
  "event_name (MessageStart msg_id model) = ''message_start''"
| "event_name Ping = ''ping''"
| "event_name (ContentBlockStart i b) = ''content_block_start''"
| "event_name (ContentBlockDelta i d) = ''content_block_delta''"
| "event_name (ContentBlockStop i) = ''content_block_stop''"
| "event_name (MessageDelta stop_reason n) = ''message_delta''"
| "event_name MessageStop = ''message_stop''"

subsection \<open>The finish-reason table\<close>

definition translate_finish_reason :: "string option \<Rightarrow> string" where
  "translate_finish_reason reason =
     (let r = (case reason of None \<Rightarrow> '''' | Some s \<Rightarrow> s) in
      if r = ''stop'' then ''end_turn''
      else if r = ''length'' then ''max_tokens''
      else if r = ''tool_calls'' then ''tool_use''
      else if r = ''content_filter'' then ''end_turn''
      else ''end_turn'')"

subsection \<open>The state of one streaming call\<close>

record accumulator =
  acc_id :: string
  acc_name :: string
  acc_arguments :: string
  acc_block_index :: nat

text \<open>
  The local variables of the generator. \<open>uuids_drawn\<close> counts the calls of
  \<^verbatim>\<open>uuid.uuid4()\<close> made so far; the \<open>n\<close>-th call returns a value whose \<^verbatim>\<open>hex\<close> is
  \<open>uuid4_hex n\<close>, a parameter of the model. The two lists kept for the log line
  (\<^verbatim>\<open>_log_text_preview\<close>, \<^verbatim>\<open>_log_tool_names\<close>) reach no event and are left out.
\<close>

record stream_state =
  output_tokens :: nat
  block_index :: nat
  current_block_type :: "string option"
  tool_call_accumulators :: "int \<Rightarrow> accumulator option"
  uuids_drawn :: nat

definition initial_state :: stream_state where
  "initial_state =
     \<lparr>output_tokens = 0, block_index = 0, current_block_type = None,
      tool_call_accumulators = (\<lambda>_. None), uuids_drawn = 1\<rparr>"

text \<open>Python's truth value of an optional string: \<^verbatim>\<open>None\<close> and \<^verbatim>\<open>""\<close> are false.\<close>

fun truthy_str :: "string option \<Rightarrow> bool" where
  "truthy_str None = False"
| "truthy_str (Some s) = (s \<noteq> [])"

text \<open>\<^verbatim>\<open>x or ""\<close> for an optional string.\<close>

fun or_empty :: "string option \<Rightarrow> string" where
  "or_empty None = []"
| "or_empty (Some s) = s"

text \<open>
  ``Close previous block if any'': the stop event for the open block, and the block index
  moves on. Both the text branch and the tool-call branch do this before they open a block.
\<close>

definition close_previous :: "stream_state \<Rightarrow> sse_event list \<times> stream_state" where
  "close_previous st =
     (if current_block_type st \<noteq> None
      then ([ContentBlockStop (block_index st)], st\<lparr>block_index := block_index st + 1\<rparr>)
      else ([], st))"

text \<open>The branch for \<^verbatim>\<open>delta.content\<close>, entered when the content is a non-empty string.\<close>

definition handle_content :: "stream_state \<Rightarrow> string \<Rightarrow> sse_event list \<times> stream_state" where
  "handle_content st text =
     (case (if current_block_type st \<noteq> Some ''text''
            then (case close_previous st of (closing, st1) \<Rightarrow>
                    (closing @ [ContentBlockStart (block_index st1) TextBlock],
                     st1\<lparr>current_block_type := Some ''text''\<rparr>))
            else ([], st)) of
        (opening, st2) \<Rightarrow>
          (opening @ [ContentBlockDelta (block_index st2) (TextDelta text)],
           st2\<lparr>output_tokens := output_tokens st2 + 1\<rparr>))"

text \<open>
  The body of \<^verbatim>\<open>for tc_delta in delta.tool_calls\<close>. First the block for a backend index not
  seen before is opened and its accumulator stored; then the fragment is added to the
  accumulator of its index, and its argument text is sent on under the block index that the
  accumulator recorded.
\<close>

definition tool_name_of :: "tool_call_delta \<Rightarrow> string" where
  "tool_name_of tc = (case tc_function tc of None \<Rightarrow> [] | Some fn \<Rightarrow> or_empty (fn_name fn))"

definition open_tool_block ::
  "(nat \<Rightarrow> string) \<Rightarrow> stream_state \<Rightarrow> int \<Rightarrow> tool_call_delta \<Rightarrow> sse_event list \<times> stream_state" where
  "open_tool_block uuid4_hex st tc_idx tc =
     (case close_previous st of (closing, st1) \<Rightarrow>
        (case (if truthy_str (tc_id tc) then (or_empty (tc_id tc), uuids_drawn st1)
               else (''toolu_'' @ take 12 (uuid4_hex (uuids_drawn st1)), uuids_drawn st1 + 1)) of
           (tool_id, drawn) \<Rightarrow>
             (closing @
                [ContentBlockStart (block_index st1) (ToolUseBlock tool_id (tool_name_of tc))],
              st1\<lparr>tool_call_accumulators :=
                     (tool_call_accumulators st1)
                       (tc_idx \<mapsto> \<lparr>acc_id = tool_id, acc_name = tool_name_of tc,
                                  acc_arguments = [], acc_block_index = block_index st1\<rparr>),
                   current_block_type := Some ''tool_use'',
                   uuids_drawn := drawn\<rparr>)))"

definition accumulate_fragment ::
  "stream_state \<Rightarrow> int \<Rightarrow> accumulator \<Rightarrow> tool_call_delta \<Rightarrow> sse_event list \<times> stream_state" where
  "accumulate_fragment st tc_idx acc tc =
     (case tc_function tc of
        None \<Rightarrow> ([], st)
      | Some fn \<Rightarrow>
          (let acc1 = (if truthy_str (fn_name fn) then acc\<lparr>acc_name := or_empty (fn_name fn)\<rparr>
                       else acc);
               arg_fragment = or_empty (fn_arguments fn)
           in if arg_fragment \<noteq> []
              then ([ContentBlockDelta (acc_block_index acc1) (InputJsonDelta arg_fragment)],
                    st\<lparr>tool_call_accumulators :=
                         (tool_call_accumulators st)
                           (tc_idx \<mapsto> acc1\<lparr>acc_arguments := acc_arguments acc1 @ arg_fragment\<rparr>)\<rparr>)
              else ([], st\<lparr>tool_call_accumulators :=
                              (tool_call_accumulators st)(tc_idx \<mapsto> acc1)\<rparr>)))"

definition handle_tool_call ::
  "(nat \<Rightarrow> string) \<Rightarrow> stream_state \<Rightarrow> tool_call_delta \<Rightarrow> sse_event list \<times> stream_state" where
  "handle_tool_call uuid4_hex st tc =
     (let tc_idx = (case tc_index tc of None \<Rightarrow> 0 | Some i \<Rightarrow> i) in
      case (if tool_call_accumulators st tc_idx = None
            then open_tool_block uuid4_hex st tc_idx tc else ([], st)) of
        (opening, st1) \<Rightarrow>
          (case tool_call_accumulators st1 tc_idx of
             None \<Rightarrow> (opening, st1)
           | Some acc \<Rightarrow>
               (case accumulate_fragment st1 tc_idx acc tc of
                  (deltas, st2) \<Rightarrow> (opening @ deltas, st2))))"

fun handle_tool_calls ::
  "(nat \<Rightarrow> string) \<Rightarrow> stream_state \<Rightarrow> tool_call_delta list \<Rightarrow> sse_event list \<times> stream_state" where
  "handle_tool_calls uuid4_hex st [] = ([], st)"
| "handle_tool_calls uuid4_hex st (tc # tcs) =
     (case handle_tool_call uuid4_hex st tc of
        (evs, st1) \<Rightarrow>
          (case handle_tool_calls uuid4_hex st1 tcs of
             (evs', st2) \<Rightarrow> (evs @ evs', st2)))"

text \<open>
  The events that close the stream: the stop of the open block, if there is one, then
  \<^verbatim>\<open>message_delta\<close> and \<^verbatim>\<open>message_stop\<close>. The source writes these three yields three
  times: under \<^verbatim>\<open>if finish_reason\<close>, in the \<^verbatim>\<open>except\<close> block and after the
  \<^verbatim>\<open>try\<close> statement. None of the three changes the state.
\<close>

definition closing_events :: "stream_state \<Rightarrow> string \<Rightarrow> sse_event list" where
  "closing_events st stop_reason =
     (if current_block_type st \<noteq> None then [ContentBlockStop (block_index st)] else [])
     @ [MessageDelta stop_reason (output_tokens st), MessageStop]"

text \<open>
  One turn of \<^verbatim>\<open>async for chunk in oai_stream\<close>. The flag says whether the turn ended in
  \<^verbatim>\<open>return\<close>.
\<close>

definition process_chunk ::
  "(nat \<Rightarrow> string) \<Rightarrow> stream_state \<Rightarrow> chunk \<Rightarrow> sse_event list \<times> stream_state \<times> bool" where
  "process_chunk uuid4_hex st c =
     (case choices c of
        [] \<Rightarrow> ([], st, False)
      | ch # _ \<Rightarrow>
          (case (case choice_delta ch of
                   None \<Rightarrow> ([], st)
                 | Some d \<Rightarrow>
                     (case (if truthy_str (delta_content d)
                            then handle_content st (or_empty (delta_content d))
                            else ([], st)) of
                        (text_evs, st1) \<Rightarrow>
                          (case (case delta_tool_calls d of
                                   None \<Rightarrow> ([], st1)
                                 | Some tcs \<Rightarrow> handle_tool_calls uuid4_hex st1 tcs) of
                             (tool_evs, st2) \<Rightarrow> (text_evs @ tool_evs, st2)))) of
             (evs, st3) \<Rightarrow>
               if truthy_str (finish_reason ch)
               then (evs @ closing_events st3 (translate_finish_reason (finish_reason ch)),
                     st3, True)
               else (evs, st3, False)))"

text \<open>
  The loop. It stops in one of three ways, and gives back the chunks that were never taken
  from the iterator.
\<close>

datatype loop_exit = Returned | Ended | Raised

fun stream_loop ::
  "(nat \<Rightarrow> string) \<Rightarrow> stream_state \<Rightarrow> chunk list \<Rightarrow> stream_end
     \<Rightarrow> sse_event list \<times> stream_state \<times> loop_exit \<times> chunk list" where
  "stream_loop uuid4_hex st [] Exhausted = ([], st, Ended, [])"
| "stream_loop uuid4_hex st [] Raises = ([], st, Raised, [])"
| "stream_loop uuid4_hex st (c # cs) e =
     (case process_chunk uuid4_hex st c of
        (evs, st1, finished) \<Rightarrow>
          if finished then (evs, st1, Returned, cs)
          else (case stream_loop uuid4_hex st1 cs e of
                  (evs', st2, ex, unread) \<Rightarrow> (evs @ evs', st2, ex, unread)))"

text \<open>
  The generator as a whole: every event it yields, in order. After \<^verbatim>\<open>return\<close> nothing
  follows. The \<^verbatim>\<open>except\<close> block yields the closing events and has no \<^verbatim>\<open>return\<close>, so
  control goes on to the statements after the \<^verbatim>\<open>try\<close>, which yield them again; these
  statements are also what a stream that runs out without a finish reason reaches.
\<close>

definition stream_anthropic_sse ::
  "(nat \<Rightarrow> string) \<Rightarrow> oai_stream \<Rightarrow> json \<Rightarrow> sse_event list" where
  "stream_anthropic_sse uuid4_hex stream model =
     (case stream_loop uuid4_hex initial_state (fst stream) (snd stream) of
        (evs, st, ex, unread) \<Rightarrow>
          [MessageStart (''msg_'' @ take 24 (uuid4_hex 0)) model, Ping] @ evs @
          (case ex of
             Returned \<Rightarrow> []
           | Raised \<Rightarrow> closing_events st ''end_turn'' @ closing_events st ''end_turn''
           | Ended \<Rightarrow> closing_events st ''end_turn''))"

section \<open>The token estimate\<close>

text \<open>\<^verbatim>\<open>d.get(key, default)\<close> where \<^verbatim>\<open>d\<close> is known to be a dict with the items \<open>kvs\<close>.\<close>

definition lookup :: "(string \<times> json) list \<Rightarrow> string \<Rightarrow> json \<Rightarrow> json" where
  "lookup kvs key dflt = (case map_of kvs key of None \<Rightarrow> dflt | Some v \<Rightarrow> v)"

text \<open>A loop that adds up what each element contributes, and stops where one raises.\<close>

fun sum_option :: "('a \<Rightarrow> nat option) \<Rightarrow> 'a list \<Rightarrow> nat option" where
  "sum_option f [] = Some 0"
| "sum_option f (x # xs) =
     (case f x of
        None \<Rightarrow> None
      | Some n \<Rightarrow> (case sum_option f xs of None \<Rightarrow> None | Some m \<Rightarrow> Some (n + m)))"

text \<open>The body of \<^verbatim>\<open>for block in system\<close>.\<close>

fun system_block_chars :: "json \<Rightarrow> nat option" where
  "system_block_chars (JObj kvs) = py_len (lookup kvs ''text'' (JStr []))"
| "system_block_chars v = Some 0"

fun system_chars :: "json \<Rightarrow> nat option" where
  "system_chars (JStr s) = Some (length s)"
| "system_chars (JArr blocks) = sum_option system_block_chars blocks"
| "system_chars v = Some 0"

text \<open>The body of \<^verbatim>\<open>for block in content\<close>.\<close>

fun content_block_chars :: "python \<Rightarrow> json \<Rightarrow> nat option" where
  "content_block_chars py (JObj kvs) =
     (case py_len (lookup kvs ''text'' (JStr [])) of
        None \<Rightarrow> None
      | Some n \<Rightarrow> Some (n + length (json_dumps py (lookup kvs ''input'' (JStr [])))))"
| "content_block_chars py v = Some 0"

fun content_chars :: "python \<Rightarrow> json \<Rightarrow> nat option" where
  "content_chars py (JStr s) = Some (length s)"
| "content_chars py (JArr blocks) = sum_option (content_block_chars py) blocks"
| "content_chars py v = Some 0"

text \<open>The body of \<^verbatim>\<open>for msg in body.get("messages", [])\<close>.\<close>

definition message_chars :: "python \<Rightarrow> json \<Rightarrow> nat option" where
  "message_chars py msg =
     (case py_get msg ''content'' (JStr []) of
        None \<Rightarrow> None
      | Some content \<Rightarrow> content_chars py content)"

text \<open>The value of \<^verbatim>\<open>total_chars\<close> at the \<^verbatim>\<open>return\<close>.\<close>

definition total_chars :: "python \<Rightarrow> json \<Rightarrow> nat option" where
  "total_chars py body =
     do {
       system \<leftarrow> py_get body ''system'' (JStr []);
       s \<leftarrow> system_chars system;
       messages \<leftarrow> py_get body ''messages'' (JArr []);
       msgs \<leftarrow> py_iter messages;
       m \<leftarrow> sum_option (message_chars py) msgs;
       Some (s + m)
     }"

definition count_tokens_estimate :: "python \<Rightarrow> json \<Rightarrow> nat option" where
  "count_tokens_estimate py body = map_option (\<lambda>total. max 1 (total div 4)) (total_chars py body)"

section \<open>Anthropic to OpenAI\<close>

definition newline :: string where
  "newline = [CHR 0x0A]"

text \<open>
  The parts that a list of blocks gives: the \<^verbatim>\<open>"text"\<close> of each dict whose \<^verbatim>\<open>"type"\<close> is
  \<^verbatim>\<open>"text"\<close>, and each element that is a string itself. \<^verbatim>\<open>_translate_system_prompt\<close> and
  the \<^verbatim>\<open>tool_result\<close> branch of \<^verbatim>\<open>_translate_messages_to_openai\<close> run the same loop.
\<close>

fun text_or_str_parts :: "json list \<Rightarrow> json list" where
  "text_or_str_parts [] = []"
| "text_or_str_parts (JObj kvs # bs) =
     (if lookup kvs ''type'' JNull = JStr ''text''
      then lookup kvs ''text'' (JStr []) # text_or_str_parts bs
      else text_or_str_parts bs)"
| "text_or_str_parts (JStr s # bs) = JStr s # text_or_str_parts bs"
| "text_or_str_parts (b # bs) = text_or_str_parts bs"

fun translate_system_prompt :: "python \<Rightarrow> json \<Rightarrow> string option" where
  "translate_system_prompt py (JStr s) = Some s"
| "translate_system_prompt py (JArr blocks) = py_join newline (text_or_str_parts blocks)"
| "translate_system_prompt py v = Some (str_of py v)"

subsection \<open>Messages\<close>

text \<open>
  The three lists that the loop over the blocks of one message fills, and the number of
  \<^verbatim>\<open>uuid.uuid4()\<close> calls made so far.
\<close>

record block_lists =
  text_parts :: "json list"
  tool_calls :: "json list"
  tool_results :: "json list"
  drawn :: nat

text \<open>
  The entry for a \<^verbatim>\<open>tool_use\<close> block. The default of \<^verbatim>\<open>block.get("id", ...)\<close> is evaluated
  whether the block has an id or not, so every such block draws a uuid.
\<close>

definition tool_call_entry :: "python \<Rightarrow> nat \<Rightarrow> (string \<times> json) list \<Rightarrow> json" where
  "tool_call_entry py n kvs =
     JObj [(''id'', lookup kvs ''id'' (JStr (''call_'' @ take 8 (uuid4 py n)))),
           (''type'', JStr ''function''),
           (''function'',
              JObj [(''name'', lookup kvs ''name'' (JStr [])),
                    (''arguments'', JStr (json_dumps py (lookup kvs ''input'' (JObj []))))])]"

text \<open>The text of a \<^verbatim>\<open>tool_result\<close> block's content.\<close>

fun result_text :: "python \<Rightarrow> json \<Rightarrow> string option" where
  "result_text py (JArr items) = py_join newline (text_or_str_parts items)"
| "result_text py (JStr s) = Some s"
| "result_text py v = Some (str_of py v)"

definition tool_result_message :: "python \<Rightarrow> (string \<times> json) list \<Rightarrow> json option" where
  "tool_result_message py kvs =
     (case result_text py (lookup kvs ''content'' (JStr [])) of
        None \<Rightarrow> None
      | Some text \<Rightarrow>
          Some (JObj [(''role'', JStr ''tool''),
                      (''tool_call_id'', lookup kvs ''tool_use_id'' (JStr [])),
                      (''content'', JStr text)]))"

text \<open>\<^verbatim>\<open>for block in content\<close>.\<close>

fun collect_blocks :: "python \<Rightarrow> block_lists \<Rightarrow> json list \<Rightarrow> block_lists option" where
  "collect_blocks py p [] = Some p"
| "collect_blocks py p (JObj kvs # bs) =
     (if lookup kvs ''type'' JNull = JStr ''text''
      then collect_blocks py
             (p\<lparr>text_parts := text_parts p @ [lookup kvs ''text'' (JStr [])]\<rparr>) bs
      else if lookup kvs ''type'' JNull = JStr ''tool_use''
      then collect_blocks py
             (p\<lparr>tool_calls := tool_calls p @ [tool_call_entry py (drawn p) kvs],
                drawn := drawn p + 1\<rparr>) bs
      else if lookup kvs ''type'' JNull = JStr ''tool_result''
      then (case tool_result_message py kvs of
              None \<Rightarrow> None
            | Some m \<Rightarrow> collect_blocks py (p\<lparr>tool_results := tool_results p @ [m]\<rparr>) bs)
      else collect_blocks py p bs)"
| "collect_blocks py p (b # bs) = collect_blocks py p bs"

text \<open>
  ``Build the OpenAI message for this Anthropic message'': the messages appended for a
  content that is a list, given the role and the three lists.
\<close>

definition build_messages :: "json \<Rightarrow> block_lists \<Rightarrow> json list option" where
  "build_messages role p =
     (if role = JStr ''assistant'' \<and> tool_calls p \<noteq> []
      then (if text_parts p \<noteq> []
            then map_option
                   (\<lambda>text. [JObj [(''role'', JStr ''assistant''),
                                   (''tool_calls'', JArr (tool_calls p)),
                                   (''content'', JStr text)]])
                   (py_join newline (text_parts p))
            else Some [JObj [(''role'', JStr ''assistant''),
                             (''tool_calls'', JArr (tool_calls p)),
                             (''content'', JNull)]])
      else if tool_results p \<noteq> []
      then (if text_parts p \<noteq> []
            then map_option
                   (\<lambda>text. JObj [(''role'', role), (''content'', JStr text)] # tool_results p)
                   (py_join newline (text_parts p))
            else Some (tool_results p))
      else if text_parts p \<noteq> []
      then map_option
             (\<lambda>text. [JObj [(''role'', role), (''content'', JStr text)]])
             (py_join newline (text_parts p))
      else Some [JObj [(''role'', role), (''content'', JStr [])]])"

text \<open>
  The body of \<^verbatim>\<open>for msg in messages\<close>: the messages appended to \<^verbatim>\<open>oai_messages\<close>, and the
  number of uuids drawn afterwards.
\<close>

definition translate_message :: "python \<Rightarrow> nat \<Rightarrow> json \<Rightarrow> (json list \<times> nat) option" where
  "translate_message py n msg =
     do {
       role \<leftarrow> py_get msg ''role'' (JStr ''user'');
       content \<leftarrow> py_get msg ''content'' JNull;
       (case content of
          JStr s \<Rightarrow> Some ([JObj [(''role'', role), (''content'', content)]], n)
        | JArr blocks \<Rightarrow>
            do {
              p \<leftarrow> collect_blocks py
                     \<lparr>text_parts = [], tool_calls = [], tool_results = [], drawn = n\<rparr> blocks;
              out \<leftarrow> build_messages role p;
              Some (out, drawn p)
            }
        | _ \<Rightarrow>
            Some ([JObj [(''role'', role),
                         (''content'', JStr (if truthy content then str_of py content else []))]],
                  n))
     }"

fun translate_message_list :: "python \<Rightarrow> nat \<Rightarrow> json list \<Rightarrow> (json list \<times> nat) option" where
  "translate_message_list py n [] = Some ([], n)"
| "translate_message_list py n (msg # msgs) =
     (case translate_message py n msg of
        None \<Rightarrow> None
      | Some (out, n1) \<Rightarrow>
          (case translate_message_list py n1 msgs of
             None \<Rightarrow> None
           | Some (rest, n2) \<Rightarrow> Some (out @ rest, n2)))"

definition translate_messages_to_openai ::
  "python \<Rightarrow> nat \<Rightarrow> json \<Rightarrow> (json list \<times> nat) option" where
  "translate_messages_to_openai py n messages =
     (case py_iter messages of
        None \<Rightarrow> None
      | Some msgs \<Rightarrow> translate_message_list py n msgs)"

subsection \<open>Tools and tool choice\<close>

definition tool_entry :: "json \<Rightarrow> json option" where
  "tool_entry tool =
     do {
       name \<leftarrow> py_get tool ''name'' (JStr []);
       description \<leftarrow> py_get tool ''description'' (JStr []);
       parameters \<leftarrow> py_get tool ''input_schema'' (JObj []);
       Some (JObj [(''type'', JStr ''function''),
                   (''function'',
                      JObj [(''name'', name), (''description'', description),
                            (''parameters'', parameters)])])
     }"

fun tool_entries :: "json list \<Rightarrow> json list option" where
  "tool_entries [] = Some []"
| "tool_entries (tool # tools) =
     (case tool_entry tool of
        None \<Rightarrow> None
      | Some e \<Rightarrow> map_option ((#) e) (tool_entries tools))"

text \<open>The result is \<open>JNull\<close> for Python's \<^verbatim>\<open>None\<close>.\<close>

definition translate_tools_to_openai :: "json \<Rightarrow> json option" where
  "translate_tools_to_openai tools =
     (if \<not> truthy tools then Some JNull
      else (case py_iter tools of
              None \<Rightarrow> None
            | Some ts \<Rightarrow> map_option JArr (tool_entries ts)))"

fun translate_tool_choice :: "json \<Rightarrow> json" where
  "translate_tool_choice (JObj kvs) =
     (if lookup kvs ''type'' JNull = JStr ''auto'' then JStr ''auto''
      else if lookup kvs ''type'' JNull = JStr ''any'' then JStr ''required''
      else if lookup kvs ''type'' JNull = JStr ''tool''
      then JObj [(''type'', JStr ''function''),
                 (''function'', JObj [(''name'', lookup kvs ''name'' (JStr []))])]
      else JNull)"
| "translate_tool_choice v = JNull"

section \<open>OpenAI to Anthropic, without streaming\<close>

text \<open>The response object of a call without streaming, as far as the code reads it.\<close>

record function_call =
  call_name :: "string option"
  call_arguments :: "string option"

record tool_call =
  call_id :: "string option"
  call_function :: "function_call option"

record oai_message =
  message_content :: "string option"
  message_tool_calls :: "tool_call list option"

record response_choice =
  choice_message :: "oai_message option"
  choice_finish_reason :: "string option"

record usage =
  prompt_tokens :: "int option"
  completion_tokens :: "int option"

record oai_response =
  response_choices :: "response_choice list"
  response_usage :: "usage option"

text \<open>
  The block for one tool call. A call without \<^verbatim>\<open>function\<close> raises at \<^verbatim>\<open>tc.function.name\<close>;
  arguments that are \<^verbatim>\<open>None\<close> raise \<^verbatim>\<open>TypeError\<close> in \<^verbatim>\<open>json.loads\<close>, which the
  \<^verbatim>\<open>except\<close> clause does not catch; arguments that do not parse give \<^verbatim>\<open>{}\<close>.
\<close>

definition tool_use_block :: "python \<Rightarrow> nat \<Rightarrow> tool_call \<Rightarrow> (json \<times> nat) option" where
  "tool_use_block py n tc =
     (case call_function tc of
        None \<Rightarrow> None
      | Some fn \<Rightarrow>
          (case call_arguments fn of
             None \<Rightarrow> None
           | Some args \<Rightarrow>
               Some (JObj [(''type'', JStr ''tool_use''),
                           (''id'', JStr (if truthy_str (call_id tc) then or_empty (call_id tc)
                                          else ''toolu_'' @ take 12 (uuid4 py n))),
                           (''name'', (case call_name fn of None \<Rightarrow> JNull | Some s \<Rightarrow> JStr s)),
                           (''input'', (case json_loads py args of None \<Rightarrow> JObj [] | Some v \<Rightarrow> v))],
                     if truthy_str (call_id tc) then n else n + 1)))"

fun tool_use_blocks :: "python \<Rightarrow> nat \<Rightarrow> tool_call list \<Rightarrow> (json list \<times> nat) option" where
  "tool_use_blocks py n [] = Some ([], n)"
| "tool_use_blocks py n (tc # tcs) =
     (case tool_use_block py n tc of
        None \<Rightarrow> None
      | Some (b, n1) \<Rightarrow>
          (case tool_use_blocks py n1 tcs of
             None \<Rightarrow> None
           | Some (bs, n2) \<Rightarrow> Some (b # bs, n2)))"

definition count_or_zero :: "int option \<Rightarrow> int" where
  "count_or_zero c = (case c of None \<Rightarrow> 0 | Some i \<Rightarrow> i)"

definition build_anthropic_response ::
  "python \<Rightarrow> nat \<Rightarrow> oai_response \<Rightarrow> json \<Rightarrow> (json \<times> nat) option" where
  "build_anthropic_response py n oai_response model =
     (let choice = (case response_choices oai_response of [] \<Rightarrow> None | c # _ \<Rightarrow> Some c);
          message = (case choice of None \<Rightarrow> None | Some c \<Rightarrow> choice_message c);
          text_blocks =
            (case message of
               None \<Rightarrow> []
             | Some m \<Rightarrow>
                 (if truthy_str (message_content m)
                  then [JObj [(''type'', JStr ''text''),
                              (''text'', JStr (or_empty (message_content m)))]]
                  else []));
          calls =
            (case message of
               None \<Rightarrow> []
             | Some m \<Rightarrow> (case message_tool_calls m of None \<Rightarrow> [] | Some tcs \<Rightarrow> tcs))
      in case tool_use_blocks py n calls of
           None \<Rightarrow> None
         | Some (tool_blocks, n1) \<Rightarrow>
             Some (JObj [(''id'', JStr (''msg_'' @ take 24 (uuid4 py n1))),
                         (''type'', JStr ''message''),
                         (''role'', JStr ''assistant''),
                         (''content'', JArr (text_blocks @ tool_blocks)),
                         (''model'', model),
                         (''stop_reason'',
                            JStr (translate_finish_reason
                                    (case choice of None \<Rightarrow> None
                                     | Some c \<Rightarrow> choice_finish_reason c))),
                         (''stop_sequence'', JNull),
                         (''usage'',
                            JObj [(''input_tokens'',
                                     JInt (case response_usage oai_response of None \<Rightarrow> 0
                                           | Some u \<Rightarrow> count_or_zero (prompt_tokens u))),
                                  (''output_tokens'',
                                     JInt (case response_usage oai_response of None \<Rightarrow> 0
                                           | Some u \<Rightarrow> count_or_zero (completion_tokens u)))])],
                   n1 + 1))"

section \<open>The route handlers\<close>

subsection \<open>What the handlers work with\<close>

text \<open>
  \<^verbatim>\<open>JSONResponse\<close> with its status code and content, and \<^verbatim>\<open>StreamingResponse\<close> with the
  events that its generator yields; the media type and the headers of the latter are
  constants. A handler that lets an exception out has no response: \<open>None\<close>.
\<close>

datatype response = JSONResponse nat json | StreamingResponse "sse_event list"

text \<open>
  \<^verbatim>\<open>litellm.acompletion\<close>, called with the keyword arguments in the order in which the
  handler sets them: it raises an exception \<^verbatim>\<open>e\<close>, given here by \<^verbatim>\<open>str(e)\<close>, or returns
  a stream of chunks or a complete response.
\<close>

datatype backend_reply = Stream oai_stream | Completion oai_response

type_synonym acompletion = "(string \<times> json) list \<Rightarrow> string + backend_reply"

text \<open>
  The registry module, which is not part of these sources: the dict that
  \<^verbatim>\<open>get_all_settings()\<close> returns and the dict \<^verbatim>\<open>API_PROVIDERS\<close>.
\<close>

record registry =
  all_settings :: "(string \<times> json) list"
  api_providers :: "(string \<times> json) list"

text \<open>\<^verbatim>\<open>API_PROVIDERS.get(provider_id)\<close>: a list or a dict cannot be a key.\<close>

fun providers_get :: "(string \<times> json) list \<Rightarrow> json \<Rightarrow> json option" where
  "providers_get ps (JStr k) = Some (lookup ps k JNull)"
| "providers_get ps (JArr xs) = None"
| "providers_get ps (JObj kvs) = None"
| "providers_get ps v = Some JNull"

definition error_content :: "string \<Rightarrow> string \<Rightarrow> json" where
  "error_content error_type message =
     JObj [(''error'', JObj [(''type'', JStr error_type), (''message'', JStr message)])]"

text \<open>
  The preamble of the source. Its dash, a code point beyond those of \<open>char\<close>, is written as
  the one character \<open>CHR 0x96\<close>.
\<close>

definition COMPAT_PREAMBLE :: string where
  "COMPAT_PREAMBLE =
     ''You are a capable AI coding assistant. '' @
     ''You have access to tools such as Bash (for running shell commands), '' @
     ''Read/Write/Edit (for file operations), and various MCP tools. '' @
     ''IMPORTANT: Always complete the requested task by calling the available tools '' @
     ''directly. Do NOT ask for clarification or additional information '' @ [CHR 0x96] @
     '' proceed '' @
     ''immediately using the tools provided. '' @
     ''If a task requires reading a file, call the Read tool. '' @
     ''If a task requires running a command, call the Bash tool. '' @
     ''If a task requires creating features, call the MCP feature tools. '' @
     ''Think step-by-step and use tools to accomplish every goal.'' @ newline @ newline"

subsection \<open>The request to the backend\<close>

text \<open>
  ``System prompt'': the text added to the preamble. A system value that is absent or false
  (\<^verbatim>\<open>None\<close>, \<^verbatim>\<open>""\<close>, \<^verbatim>\<open>[]\<close>) is not translated.
\<close>

definition system_text_of :: "python \<Rightarrow> json \<Rightarrow> string option" where
  "system_text_of py system = (if truthy system then translate_system_prompt py system else Some [])"

definition system_message :: "string \<Rightarrow> json" where
  "system_message system_text =
     JObj [(''role'', JStr ''system''), (''content'', JStr (COMPAT_PREAMBLE @ system_text))]"

text \<open>
  ``For tool-calling requests lower temperature yields more reliable tool use'': the
  comparison is made only when there are tools.
\<close>

definition clamp_temperature :: "json \<Rightarrow> json \<Rightarrow> json option" where
  "clamp_temperature oai_tools temperature =
     (if truthy oai_tools
      then (case py_gt temperature (6 / 10) of
              None \<Rightarrow> None
            | Some exceeds \<Rightarrow> Some (if exceeds then JFloat (6 / 10) else temperature))
      else Some temperature)"

text \<open>
  The keyword arguments of the call, from ``Build OpenAI messages from Anthropic format'' to
  the \<^verbatim>\<open>tool_choice\<close> entry, and the number of uuids drawn on the way.
\<close>

definition build_call_kwargs ::
  "python \<Rightarrow> json \<Rightarrow> json \<Rightarrow> json \<Rightarrow> json \<Rightarrow> json \<Rightarrow> ((string \<times> json) list \<times> nat) option" where
  "build_call_kwargs py body api_base auth_token model stream =
     do {
       system \<leftarrow> py_get body ''system'' JNull;
       system_text \<leftarrow> system_text_of py system;
       anthropic_messages \<leftarrow> py_get body ''messages'' (JArr []);
       (translated, n) \<leftarrow> translate_messages_to_openai py 0 anthropic_messages;
       tools \<leftarrow> py_get body ''tools'' JNull;
       oai_tools \<leftarrow> translate_tools_to_openai tools;
       choice \<leftarrow> py_get body ''tool_choice'' JNull;
       max_tokens \<leftarrow> py_get body ''max_tokens'' (JInt 4096);
       temperature0 \<leftarrow> py_get body ''temperature'' (JFloat 1);
       temperature \<leftarrow> clamp_temperature oai_tools temperature0;
       top_p \<leftarrow> py_get body ''top_p'' JNull;
       Some ([(''model'', JStr (''openai/'' @ format_value py model)),
              (''messages'', JArr (system_message system_text # translated)),
              (''max_tokens'', max_tokens),
              (''temperature'', temperature),
              (''api_base'', api_base),
              (''api_key'', auth_token),
              (''stream'', stream)]
             @ (if top_p \<noteq> JNull then [(''top_p'', top_p)] else [])
             @ (if truthy oai_tools then [(''tools'', oai_tools)] else [])
             @ (if translate_tool_choice choice \<noteq> JNull \<and> truthy oai_tools
                then [(''tool_choice'', translate_tool_choice choice)]
                else if truthy oai_tools \<and> translate_tool_choice choice = JNull
                then [(''tool_choice'', JStr ''auto'')]
                else []),
             n)
     }"

subsection \<open>\<^verbatim>\<open>POST /proxy/v1/messages\<close>\<close>

text \<open>
  What the handler has when it reaches the call of the backend, or the response with which
  it returned before.
\<close>

record prepared =
  the_provider_id :: json
  the_model :: json
  the_stream :: json
  the_kwargs :: "(string \<times> json) list"
  the_drawn :: nat

definition prepare_call :: "python \<Rightarrow> registry \<Rightarrow> json \<Rightarrow> (response + prepared) option" where
  "prepare_call py reg body =
     (let settings = all_settings reg;
          provider_id = lookup settings ''api_provider'' (JStr ''claude'')
      in case providers_get (api_providers reg) provider_id of
           None \<Rightarrow> None
         | Some provider \<Rightarrow>
             if \<not> truthy provider
             then Some (Inl (JSONResponse 500
                    (error_content ''configuration_error''
                       (''Unknown provider: '' @ format_value py provider_id))))
             else
               do {
                 api_base \<leftarrow>
                   (if truthy (lookup settings ''api_base_url'' JNull)
                    then Some (lookup settings ''api_base_url'' JNull)
                    else py_get provider ''base_url'' (JStr []));
                 body_model \<leftarrow> py_get body ''model'' JNull;
                 model \<leftarrow>
                   (if truthy body_model then Some body_model
                    else if truthy (lookup settings ''api_model'' JNull)
                    then Some (lookup settings ''api_model'' JNull)
                    else py_get provider ''default_model'' (JStr []));
                 stream \<leftarrow> py_get body ''stream'' (JBool False);
                 if \<not> truthy api_base
                 then Some (Inl (JSONResponse 500
                        (error_content ''configuration_error''
                           ''No API base URL configured for provider'')))
                 else
                   do {
                     (kwargs, n) \<leftarrow>
                       build_call_kwargs py body api_base
                         (lookup settings ''api_auth_token'' (JStr [])) model stream;
                     Some (Inr \<lparr>the_provider_id = provider_id, the_model = model,
                                the_stream = stream, the_kwargs = kwargs, the_drawn = n\<rparr>)
                   }
               })"

text \<open>``Try to extract a more useful error message''.\<close>

definition proxy_error_message :: "python \<Rightarrow> json \<Rightarrow> string \<Rightarrow> string" where
  "proxy_error_message py provider_id error_msg =
     (if contains ''AuthenticationError'' error_msg \<or> contains ''401'' error_msg
      then ''Authentication failed with '' @ format_value py provider_id @ ''. Check your API key.''
      else error_msg)"

text \<open>
  The call and what follows it. With \<^verbatim>\<open>stream\<close> true the reply goes to the generator; a
  reply that cannot be iterated raises inside the generator's \<^verbatim>\<open>try\<close> at once. With
  \<^verbatim>\<open>stream\<close> false a reply without \<^verbatim>\<open>choices\<close> raises in the handler.
\<close>

definition call_backend :: "python \<Rightarrow> acompletion \<Rightarrow> prepared \<Rightarrow> response option" where
  "call_backend py acompletion p =
     (case acompletion (the_kwargs p) of
        Inl error_msg \<Rightarrow>
          Some (JSONResponse 502
                  (error_content ''proxy_error''
                     (proxy_error_message py (the_provider_id p) error_msg)))
      | Inr reply \<Rightarrow>
          if truthy (the_stream p)
          then Some (StreamingResponse
                 (stream_anthropic_sse (\<lambda>k. uuid4 py (the_drawn p + k))
                    (case reply of Stream s \<Rightarrow> s | Completion r \<Rightarrow> ([], Raises))
                    (the_model p)))
          else (case reply of
                  Stream s \<Rightarrow> None
                | Completion r \<Rightarrow>
                    map_option (\<lambda>built. JSONResponse 200 (fst built))
                      (build_anthropic_response py (the_drawn p) r (the_model p))))"

text \<open>
  The handler. \<open>litellm\<close> is \<open>None\<close> when the import of the module failed; \<open>request_json\<close>
  is what \<^verbatim>\<open>await request.json()\<close> gives, \<open>None\<close> when it raises.
\<close>

definition proxy_messages ::
  "python \<Rightarrow> acompletion option \<Rightarrow> registry \<Rightarrow> json option \<Rightarrow> response option" where
  "proxy_messages py litellm reg request_json =
     (case litellm of
        None \<Rightarrow>
          Some (JSONResponse 501
                  (error_content ''not_implemented''
                     ''litellm is not installed. Run: pip install litellm''))
      | Some acompletion \<Rightarrow>
          (case request_json of
             None \<Rightarrow> Some (JSONResponse 400 (error_content ''invalid_request'' ''Invalid JSON body''))
           | Some body \<Rightarrow>
               (case prepare_call py reg body of
                  None \<Rightarrow> None
                | Some (Inl early) \<Rightarrow> Some early
                | Some (Inr p) \<Rightarrow> call_backend py acompletion p)))"

subsection \<open>\<^verbatim>\<open>POST /proxy/v1/messages/count_tokens\<close>\<close>

definition proxy_count_tokens :: "python \<Rightarrow> json option \<Rightarrow> response option" where
  "proxy_count_tokens py request_json =
     (case request_json of
        None \<Rightarrow> Some (JSONResponse 400 (error_content ''invalid_request'' ''Invalid JSON body''))
      | Some body \<Rightarrow>
          map_option (\<lambda>n. JSONResponse 200 (JObj [(''input_tokens'', JInt (int n))]))
            (count_tokens_estimate py body))"

subsection \<open>The router\<close>

text \<open>
  The two \<^verbatim>\<open>POST\<close> routes of the router, under its prefix \<^verbatim>\<open>/proxy\<close>. Both handlers
  live in one module, whose global \<^verbatim>\<open>litellm\<close> only \<^verbatim>\<open>proxy_messages\<close> reads. A path
  with no route gets the framework's 404.
\<close>

definition route_post ::
  "python \<Rightarrow> acompletion option \<Rightarrow> registry \<Rightarrow> string \<Rightarrow> json option \<Rightarrow> response option" where
  "route_post py litellm reg path request_json =
     (if path = ''/proxy/v1/messages'' then proxy_messages py litellm reg request_json
      else if path = ''/proxy/v1/messages/count_tokens'' then proxy_count_tokens py request_json
      else Some (JSONResponse 404 (JObj [(''detail'', JStr ''Not Found'')])))"

section \<open>Properties of an event sequence\<close>

text \<open>The block indices of the \<^verbatim>\<open>content_block_start\<close> events, in the order of the events.\<close>

fun start_indices :: "sse_event list \<Rightarrow> nat list" where
  "start_indices [] = []"
| "start_indices (ContentBlockStart i b # es) = i # start_indices es"
| "start_indices (e # es) = start_indices es"

text \<open>
  The blocks that are open after a run of events, given those open before it: a block is
  open from its \<^verbatim>\<open>content_block_start\<close> to its \<^verbatim>\<open>content_block_stop\<close>.
\<close>

fun open_after :: "nat set \<Rightarrow> sse_event list \<Rightarrow> nat set" where
  "open_after opn [] = opn"
| "open_after opn (ContentBlockStart i b # es) = open_after (insert i opn) es"
| "open_after opn (ContentBlockStop i # es) = open_after (opn - {i}) es"
| "open_after opn (e # es) = open_after opn es"

text \<open>No \<^verbatim>\<open>content_block_start\<close> comes while a block is open.\<close>

fun starts_when_closed :: "nat set \<Rightarrow> sse_event list \<Rightarrow> bool" where
  "starts_when_closed opn [] = True"
| "starts_when_closed opn (ContentBlockStart i b # es) =
     (opn = {} \<and> starts_when_closed (insert i opn) es)"
| "starts_when_closed opn (ContentBlockStop i # es) = starts_when_closed (opn - {i}) es"
| "starts_when_closed opn (e # es) = starts_when_closed opn es"

text \<open>Every \<^verbatim>\<open>content_block_delta\<close> carries the index of a block that is open when it comes.\<close>

fun deltas_in_open_block :: "nat set \<Rightarrow> sse_event list \<Rightarrow> bool" where
  "deltas_in_open_block opn [] = True"
| "deltas_in_open_block opn (ContentBlockStart i b # es) = deltas_in_open_block (insert i opn) es"
| "deltas_in_open_block opn (ContentBlockStop i # es) = deltas_in_open_block (opn - {i}) es"
| "deltas_in_open_block opn (ContentBlockDelta i d # es) = (i \<in> opn \<and> deltas_in_open_block opn es)"
| "deltas_in_open_block opn (e # es) = deltas_in_open_block opn es"

text \<open>
  What the state says about the events sent so far: the index that the next block will
  get, and the block that is open.
\<close>

definition next_start :: "stream_state \<Rightarrow> nat" where
  "next_start st = (if current_block_type st = None then block_index st else Suc (block_index st))"

definition open_of :: "stream_state \<Rightarrow> nat set" where
  "open_of st = (if current_block_type st = None then {} else {block_index st})"

definition run_ok :: "stream_state \<Rightarrow> sse_event list \<Rightarrow> stream_state \<Rightarrow> bool" where
  "run_ok st evs st' \<longleftrightarrow>
     start_indices evs = [next_start st ..< next_start st'] \<and> next_start st \<le> next_start st' \<and>
     starts_when_closed (open_of st) evs"

definition step_ok :: "stream_state \<Rightarrow> sse_event list \<Rightarrow> stream_state \<Rightarrow> bool" where
  "step_ok st evs st' \<longleftrightarrow> run_ok st evs st' \<and> open_after (open_of st) evs = open_of st'"

section \<open>Chunks of the examples\<close>

text \<open>
  A chunk with one choice that carries text only, a finish reason only, or one tool-call
  fragment only.
\<close>

definition text_chunk :: "string \<Rightarrow> chunk" where
  "text_chunk s =
     \<lparr>choices = [\<lparr>choice_delta = Some \<lparr>delta_content = Some s, delta_tool_calls = None\<rparr>,
                  finish_reason = None\<rparr>]\<rparr>"

definition finish_chunk :: "string \<Rightarrow> chunk" where
  "finish_chunk r = \<lparr>choices = [\<lparr>choice_delta = None, finish_reason = Some r\<rparr>]\<rparr>"

definition tool_chunk :: "int \<Rightarrow> string option \<Rightarrow> string option \<Rightarrow> string option \<Rightarrow> chunk" where
  "tool_chunk i tool_id name args =
     \<lparr>choices =
        [\<lparr>choice_delta =
            Some \<lparr>delta_content = None,
                  delta_tool_calls =
                    Some [\<lparr>tc_index = Some i, tc_id = tool_id,
                           tc_function = Some \<lparr>fn_name = name, fn_arguments = args\<rparr>\<rparr>]\<rparr>,
          finish_reason = None\<rparr>]\<rparr>"

section \<open>Values and readings for the claims about requests\<close>

text \<open>
  Some value for the parameters of the model, for the examples; no example below applies one
  of these functions to a float or to a value other than a string.
\<close>

definition example_python :: python where
  "example_python =
     \<lparr>float_repr = (\<lambda>r. ''0.0''), str_of = (\<lambda>v. ''None''),
      uuid4 = (\<lambda>n. ''0123456789abcdef0123456789abcdef''), json_loads = (\<lambda>s. None)\<rparr>"

subsection \<open>Blocks of a message\<close>

text \<open>The dict blocks of a list whose \<^verbatim>\<open>"type"\<close> is the given one, in order.\<close>

fun has_type :: "string \<Rightarrow> json \<Rightarrow> bool" where
  "has_type ty (JObj kvs) = (lookup kvs ''type'' JNull = JStr ty)"
| "has_type ty v = False"

definition blocks_of_type :: "string \<Rightarrow> json list \<Rightarrow> json list" where
  "blocks_of_type ty blocks = filter (has_type ty) blocks"

text \<open>A field of a block, with a default.\<close>

fun block_field :: "string \<Rightarrow> json \<Rightarrow> json \<Rightarrow> json" where
  "block_field key dflt (JObj kvs) = lookup kvs key dflt"
| "block_field key dflt v = dflt"

text \<open>The tool-role message for a \<^verbatim>\<open>tool_result\<close> block whose content flattens to a text.\<close>

definition tool_message :: "json \<Rightarrow> string \<Rightarrow> json" where
  "tool_message block text =
     JObj [(''role'', JStr ''tool''),
           (''tool_call_id'', block_field ''tool_use_id'' (JStr []) block),
           (''content'', JStr text)]"

text \<open>
  A message of the role with a text, if there is to be one, and then the tool-role
  messages.
\<close>

definition text_then_results :: "json \<Rightarrow> bool \<Rightarrow> string \<Rightarrow> json list \<Rightarrow> json list" where
  "text_then_results role with_text text results =
     (if with_text then [JObj [(''role'', role), (''content'', JStr text)]] else []) @ results"

subsection \<open>The token estimate, as sums\<close>

text \<open>\<^verbatim>\<open>len\<close> of a value that has a length.\<close>

definition len_of :: "json \<Rightarrow> nat" where
  "len_of v = (case py_len v of None \<Rightarrow> 0 | Some n \<Rightarrow> n)"

text \<open>
  What the code counts: for a system list the \<^verbatim>\<open>"text"\<close> of each dict block, with nothing
  between the blocks; for a content list, for each dict block, its \<^verbatim>\<open>"text"\<close> and the
  serialization of its \<^verbatim>\<open>"input"\<close>, that of the empty string when it has none.
\<close>

fun system_total :: "json \<Rightarrow> nat" where
  "system_total (JStr s) = length s"
| "system_total (JArr blocks) =
     sum_list (map (\<lambda>b. if is_dict b then len_of (block_field ''text'' (JStr []) b) else 0) blocks)"
| "system_total v = 0"

definition block_total :: "python \<Rightarrow> json \<Rightarrow> nat" where
  "block_total py b =
     (if is_dict b
      then len_of (block_field ''text'' (JStr []) b)
           + length (json_dumps py (block_field ''input'' (JStr []) b))
      else 0)"

fun content_total :: "python \<Rightarrow> json \<Rightarrow> nat" where
  "content_total py (JStr s) = length s"
| "content_total py (JArr blocks) = sum_list (map (block_total py) blocks)"
| "content_total py v = 0"

definition messages_total :: "python \<Rightarrow> json list \<Rightarrow> nat" where
  "messages_total py msgs =
     sum_list (map (\<lambda>msg. content_total py (block_field ''content'' (JStr []) msg)) msgs)"

text \<open>
  The total as the claim words it: the length of the system text as
  \<^verbatim>\<open>_translate_system_prompt\<close> flattens it, and for a content list the text of each block
  that has one and the serialized input of each block that has one.
\<close>

definition claimed_system_total :: "python \<Rightarrow> json \<Rightarrow> nat" where
  "claimed_system_total py system =
     (case translate_system_prompt py system of None \<Rightarrow> 0 | Some text \<Rightarrow> length text)"

fun claimed_block_total :: "python \<Rightarrow> json \<Rightarrow> nat" where
  "claimed_block_total py (JObj kvs) =
     (case map_of kvs ''text'' of None \<Rightarrow> 0 | Some t \<Rightarrow> len_of t)
     + (case map_of kvs ''input'' of None \<Rightarrow> 0 | Some i \<Rightarrow> length (json_dumps py i))"
| "claimed_block_total py v = 0"

fun claimed_content_total :: "python \<Rightarrow> json \<Rightarrow> nat" where
  "claimed_content_total py (JStr s) = length s"
| "claimed_content_total py (JArr blocks) = sum_list (map (claimed_block_total py) blocks)"
| "claimed_content_total py v = 0"

definition claimed_estimate :: "python \<Rightarrow> json \<Rightarrow> json list \<Rightarrow> nat" where
  "claimed_estimate py system msgs =
     max 1 ((claimed_system_total py system
             + sum_list (map (\<lambda>msg. claimed_content_total py
                                      (block_field ''content'' (JStr []) msg)) msgs)) div 4)"

section \<open>The block lifecycle of the streaming transcoder\<close>

text \<open>
  Each handler moves the state and the events on together: the blocks it starts get the
  indices from the old state's next index up to the new one's, it starts none while one is
  open, and it leaves open the block that the new state calls open.
\<close>

lemma start_indices_append: "start_indices (a @ b) = start_indices a @ start_indices b"
  by (induction a rule: start_indices.induct) simp_all

lemma open_after_append: "open_after opn (a @ b) = open_after (open_after opn a) b"
  by (induction opn a rule: open_after.induct) simp_all

lemma starts_when_closed_append:
  "starts_when_closed opn (a @ b) \<longleftrightarrow>
     starts_when_closed opn a \<and> starts_when_closed (open_after opn a) b"
  by (induction opn a rule: starts_when_closed.induct) simp_all

lemma no_starts_closed: "start_indices evs = [] \<Longrightarrow> starts_when_closed opn evs"
  by (induction opn evs rule: starts_when_closed.induct) simp_all

lemma upt_join: "n \<le> m \<Longrightarrow> m \<le> k \<Longrightarrow> [n..<m] @ [m..<k] = [n..<k]"
  by (metis le_Suc_ex upt_add_eq_append)

lemma step_then_run:
  assumes "step_ok st a st1" and "run_ok st1 b st2"
  shows "run_ok st (a @ b) st2"
  using assms
  by (simp add: step_ok_def run_ok_def start_indices_append starts_when_closed_append upt_join)

lemma step_then_step:
  assumes "step_ok st a st1" and "step_ok st1 b st2"
  shows "step_ok st (a @ b) st2"
  using assms step_then_run[of st a st1 b st2]
  by (simp add: step_ok_def open_after_append)

lemma step_ok_refl: "step_ok st [] st"
  by (simp add: step_ok_def run_ok_def)

lemma step_ok_content: "handle_content st text = (evs, st') \<Longrightarrow> step_ok st evs st'"
  by (auto simp: handle_content_def close_previous_def step_ok_def run_ok_def next_start_def
      open_of_def split: if_splits)

lemma step_ok_open_tool: "open_tool_block u st i tc = (evs, st') \<Longrightarrow> step_ok st evs st'"
  unfolding open_tool_block_def close_previous_def
  by (cases "current_block_type st"; cases "truthy_str (tc_id tc)")
     (auto simp: step_ok_def run_ok_def next_start_def open_of_def)

lemma step_ok_accumulate: "accumulate_fragment st i acc tc = (evs, st') \<Longrightarrow> step_ok st evs st'"
  unfolding accumulate_fragment_def Let_def
  by (cases "tc_function tc")
     (auto simp: step_ok_def run_ok_def next_start_def open_of_def split: if_splits)

lemma step_ok_tool_call: "handle_tool_call u st tc = (evs, st') \<Longrightarrow> step_ok st evs st'"
proof -
  assume h: "handle_tool_call u st tc = (evs, st')"
  let ?i = "case tc_index tc of None \<Rightarrow> 0 | Some i \<Rightarrow> i"
  obtain e1 s1 where o: "(if tool_call_accumulators st ?i = None
            then open_tool_block u st ?i tc else ([], st)) = (e1, s1)"
    by (cases "(if tool_call_accumulators st ?i = None
            then open_tool_block u st ?i tc else ([], st))")
  have 1: "step_ok st e1 s1"
    using o by (auto split: if_splits simp: step_ok_refl step_ok_open_tool)
  show ?thesis
  proof (cases "tool_call_accumulators s1 ?i")
    case None
    with h o 1 show ?thesis by (simp add: handle_tool_call_def Let_def)
  next
    case (Some acc)
    obtain e2 s2 where a: "accumulate_fragment s1 ?i acc tc = (e2, s2)"
      by (cases "accumulate_fragment s1 ?i acc tc")
    from h o Some a have "evs = e1 @ e2" "st' = s2"
      by (simp_all add: handle_tool_call_def Let_def)
    with step_then_step[OF 1 step_ok_accumulate[OF a]] show ?thesis by simp
  qed
qed

lemma step_ok_tool_calls: "handle_tool_calls u st tcs = (evs, st') \<Longrightarrow> step_ok st evs st'"
proof (induction tcs arbitrary: st evs st')
  case Nil
  then show ?case by (simp add: step_ok_refl)
next
  case (Cons tc tcs)
  obtain e1 s1 where h1: "handle_tool_call u st tc = (e1, s1)" by (cases "handle_tool_call u st tc")
  obtain e2 s2 where h2: "handle_tool_calls u s1 tcs = (e2, s2)" by (cases "handle_tool_calls u s1 tcs")
  from Cons.prems h1 h2 have "evs = e1 @ e2" "st' = s2" by simp_all
  with step_then_step[OF step_ok_tool_call[OF h1] Cons.IH[OF h2]] show ?case by simp
qed

lemma closing_no_starts: "start_indices (closing_events st r) = []"
  by (simp add: closing_events_def)

lemma step_ok_run: "step_ok st evs st' \<Longrightarrow> run_ok st evs st'"
  by (simp add: step_ok_def)

lemma run_ok_closing: "step_ok st evs st' \<Longrightarrow> run_ok st (evs @ closing_events st' r) st'"
  by (simp add: step_ok_def run_ok_def start_indices_append starts_when_closed_append
      closing_no_starts no_starts_closed)

lemma process_chunk_ok:
  assumes "process_chunk u st c = (evs, st', fin)"
  shows "if fin then run_ok st evs st' else step_ok st evs st'"
proof (cases "choices c")
  case Nil
  with assms show ?thesis by (simp add: process_chunk_def step_ok_refl)
next
  case (Cons ch chs)
  define body where "body = (case choice_delta ch of
                   None \<Rightarrow> ([], st)
                 | Some d \<Rightarrow>
                     (case (if truthy_str (delta_content d)
                            then handle_content st (or_empty (delta_content d))
                            else ([], st)) of
                        (text_evs, st1) \<Rightarrow>
                          (case (case delta_tool_calls d of
                                   None \<Rightarrow> ([], st1)
                                 | Some tcs \<Rightarrow> handle_tool_calls u st1 tcs) of
                             (tool_evs, st2) \<Rightarrow> (text_evs @ tool_evs, st2))))"
  obtain e3 s3 where b: "body = (e3, s3)" by (cases body)
  have ok: "step_ok st e3 s3"
  proof (cases "choice_delta ch")
    case None
    with b show ?thesis by (simp add: body_def step_ok_refl)
  next
    case (Some d)
    obtain e1 s1 where t: "(if truthy_str (delta_content d)
                            then handle_content st (or_empty (delta_content d))
                            else ([], st)) = (e1, s1)"
      by (cases "(if truthy_str (delta_content d)
                            then handle_content st (or_empty (delta_content d))
                            else ([], st))")
    obtain e2 s2 where tc: "(case delta_tool_calls d of
                                   None \<Rightarrow> ([], s1)
                                 | Some tcs \<Rightarrow> handle_tool_calls u s1 tcs) = (e2, s2)"
      by (cases "(case delta_tool_calls d of
                                   None \<Rightarrow> ([], s1)
                                 | Some tcs \<Rightarrow> handle_tool_calls u s1 tcs)")
    have 1: "step_ok st e1 s1"
      using t by (auto split: if_splits simp: step_ok_refl step_ok_content)
    have 2: "step_ok s1 e2 s2"
      using tc by (auto split: option.splits simp: step_ok_refl step_ok_tool_calls)
    from b Some t tc have "e3 = e1 @ e2" "s3 = s2" by (simp_all add: body_def)
    with step_then_step[OF 1 2] show ?thesis by simp
  qed
  from assms Cons b have r: "(evs, st', fin) =
      (if truthy_str (finish_reason ch)
       then (e3 @ closing_events s3 (translate_finish_reason (finish_reason ch)), s3, True)
       else (e3, s3, False))"
    by (simp add: process_chunk_def body_def)
  show ?thesis
  proof (cases "truthy_str (finish_reason ch)")
    case True
    with r ok show ?thesis by (simp add: run_ok_closing)
  next
    case False
    with r ok show ?thesis by simp
  qed
qed

lemma stream_loop_ok:
  "stream_loop u st cs e = (evs, st', ex, unread) \<Longrightarrow> run_ok st evs st'"
proof (induction cs arbitrary: st evs st' ex unread)
  case Nil
  then show ?case by (cases e) (simp_all add: step_ok_run step_ok_refl)
next
  case (Cons c cs)
  obtain e1 s1 fin where p: "process_chunk u st c = (e1, s1, fin)"
    by (cases "process_chunk u st c")
  show ?case
  proof (cases fin)
    case True
    with Cons.prems p process_chunk_ok[OF p] show ?thesis by simp
  next
    case False
    obtain e2 s2 x2 u2 where l: "stream_loop u s1 cs e = (e2, s2, x2, u2)"
      by (cases "stream_loop u s1 cs e")
    from Cons.prems p False l have "evs = e1 @ e2" "st' = s2" by simp_all
    moreover from process_chunk_ok[OF p] False have "step_ok st e1 s1" by simp
    ultimately show ?thesis using step_then_run Cons.IH[OF l] by simp
  qed
qed

section \<open>Claims about the streaming transcoder\<close>

lemmas stream_defs =
  stream_anthropic_sse_def process_chunk_def handle_content_def handle_tool_call_def
  open_tool_block_def accumulate_fragment_def tool_name_of_def close_previous_def
  closing_events_def initial_state_def translate_finish_reason_def
  text_chunk_def finish_chunk_def tool_chunk_def Let_def

text \<open>
  C1. The claim: when the backend stream raises after a block was opened and before any
  finish reason, the events end with one \<^verbatim>\<open>content_block_stop\<close>, one
  \<^verbatim>\<open>message_delta\<close> with stop reason \<^verbatim>\<open>end_turn\<close> and one \<^verbatim>\<open>message_stop\<close>, and
  nothing follows the \<^verbatim>\<open>message_stop\<close>.

  The code at the stream that yields the text \<^verbatim>\<open>Hi\<close> and then raises: the \<^verbatim>\<open>except\<close>
  block sends the three closing events and does not return, so the statements after the
  \<^verbatim>\<open>try\<close> send the same three again. The block is stopped twice and three events follow
  the first \<^verbatim>\<open>message_stop\<close>.
\<close>

theorem C1_fault_closes_stream_twice:
  "stream_anthropic_sse uuid4_hex ([text_chunk ''Hi''], Raises) model =
   [MessageStart (''msg_'' @ take 24 (uuid4_hex 0)) model, Ping,
    ContentBlockStart 0 TextBlock,
    ContentBlockDelta 0 (TextDelta ''Hi''),
    ContentBlockStop 0, MessageDelta ''end_turn'' 1, MessageStop,
    ContentBlockStop 0, MessageDelta ''end_turn'' 1, MessageStop]"
  by (simp add: stream_defs)

text \<open>
  C2. The claim: every \<^verbatim>\<open>content_block_delta\<close> for a block index comes after that
  block's start and before its stop, for any interleaving of text and tool-call fragments.

  The code at a stream where a text chunk comes between two argument fragments of the tool
  call at backend index 0: the text closes block 0 and opens block 1, and the second
  fragment still goes out under the index that the accumulator recorded, 0, after the stop
  of block 0.
\<close>

theorem C2_late_fragment_after_stop:
  "stream_anthropic_sse uuid4_hex
     ([tool_chunk 0 (Some ''T0'') (Some ''f'') (Some ''{''),
       text_chunk ''x'',
       tool_chunk 0 None None (Some ''}''),
       finish_chunk ''tool_calls''], Exhausted) model =
   [MessageStart (''msg_'' @ take 24 (uuid4_hex 0)) model, Ping,
    ContentBlockStart 0 (ToolUseBlock ''T0'' ''f''),
    ContentBlockDelta 0 (InputJsonDelta ''{''),
    ContentBlockStop 0,
    ContentBlockStart 1 TextBlock,
    ContentBlockDelta 1 (TextDelta ''x''),
    ContentBlockDelta 0 (InputJsonDelta ''}''),
    ContentBlockStop 1,
    MessageDelta ''tool_use'' 1,
    MessageStop]
   \<and> \<not> deltas_in_open_block {}
       (stream_anthropic_sse uuid4_hex
          ([tool_chunk 0 (Some ''T0'') (Some ''f'') (Some ''{''),
            text_chunk ''x'',
            tool_chunk 0 None None (Some ''}''),
            finish_chunk ''tool_calls''], Exhausted) model)"
  by (simp add: stream_defs)

text \<open>
  C3. For the chunks with text \<^verbatim>\<open>Hi\<close>, text \<^verbatim>\<open> there\<close> and finish reason \<^verbatim>\<open>stop\<close>, the
  events are exactly \<^verbatim>\<open>message_start\<close>, \<^verbatim>\<open>ping\<close>, the start of text block 0, the two
  text deltas, the stop of block 0, \<^verbatim>\<open>message_delta\<close> with stop reason \<^verbatim>\<open>end_turn\<close> and
  2 output tokens, and \<^verbatim>\<open>message_stop\<close>. Whatever the stream holds after the finish
  reason is not read: the loop returns with all of it left, and the events do not depend on
  it, nor on how the stream would have stopped.
\<close>

theorem C3_hi_there:
  "stream_anthropic_sse uuid4_hex
     ([text_chunk ''Hi'', text_chunk '' there'', finish_chunk ''stop''] @ rest, e) model =
   [MessageStart (''msg_'' @ take 24 (uuid4_hex 0)) model, Ping,
    ContentBlockStart 0 TextBlock,
    ContentBlockDelta 0 (TextDelta ''Hi''),
    ContentBlockDelta 0 (TextDelta '' there''),
    ContentBlockStop 0,
    MessageDelta ''end_turn'' 2,
    MessageStop]
   \<and> snd (snd (stream_loop uuid4_hex initial_state
               ([text_chunk ''Hi'', text_chunk '' there'', finish_chunk ''stop''] @ rest) e))
     = (Returned, rest)
   \<and> map event_name
       (stream_anthropic_sse uuid4_hex
          ([text_chunk ''Hi'', text_chunk '' there'', finish_chunk ''stop''] @ rest, e) model) =
     [''message_start'', ''ping'', ''content_block_start'', ''content_block_delta'',
      ''content_block_delta'', ''content_block_stop'', ''message_delta'', ''message_stop'']"
  by (simp add: stream_defs)

lemma start_indices_stream:
  "\<exists>n. start_indices (stream_anthropic_sse u stream model) = [0 ..< n]
       \<and> starts_when_closed {} (stream_anthropic_sse u stream model)"
proof -
  obtain evs st ex unread where
    l: "stream_loop u initial_state (fst stream) (snd stream) = (evs, st, ex, unread)"
    by (cases "stream_loop u initial_state (fst stream) (snd stream)")
  define tail where "tail = (case ex of
             Returned \<Rightarrow> []
           | Raised \<Rightarrow> closing_events st ''end_turn'' @ closing_events st ''end_turn''
           | Ended \<Rightarrow> closing_events st ''end_turn'')"
  have t: "start_indices tail = []"
    by (cases ex) (simp_all add: tail_def start_indices_append closing_no_starts)
  have r: "run_ok initial_state evs st" by (rule stream_loop_ok[OF l])
  have i0: "next_start initial_state = 0" "open_of initial_state = {}"
    by (simp_all add: next_start_def open_of_def initial_state_def)
  have s: "stream_anthropic_sse u stream model =
      [MessageStart (''msg_'' @ take 24 (u 0)) model, Ping] @ evs @ tail"
    by (simp add: stream_anthropic_sse_def l tail_def)
  from r i0 have a: "start_indices evs = [0 ..< next_start st]" "starts_when_closed {} evs"
    by (simp_all add: run_ok_def)
  have "start_indices (stream_anthropic_sse u stream model) = [0 ..< next_start st]"
    by (simp add: s start_indices_append t a)
  moreover have "starts_when_closed {} (stream_anthropic_sse u stream model)"
    by (simp add: s starts_when_closed_append a no_starts_closed[OF t])
  ultimately show ?thesis by blast
qed

text \<open>
  C4. For every stream, the indices of the \<^verbatim>\<open>content_block_start\<close> events are
  0, 1, 2, ... in this order (so they start at 0, strictly increase and never repeat), and
  no \<^verbatim>\<open>content_block_start\<close> comes while a block started before it has not been stopped.
  For the tool calls at backend indices 0 and 1, each with a name and then argument
  fragments, and the finish reason \<^verbatim>\<open>tool_calls\<close>: two \<^verbatim>\<open>tool_use\<close> blocks, at indices
  0 and 1, the first stopped before the second starts, and the stop reason \<^verbatim>\<open>tool_use\<close>.
\<close>

theorem C4_block_indices:
  "start_indices (stream_anthropic_sse uuid4_hex stream model) =
     [0 ..< length (start_indices (stream_anthropic_sse uuid4_hex stream model))]
   \<and> sorted_wrt (<) (start_indices (stream_anthropic_sse uuid4_hex stream model))
   \<and> distinct (start_indices (stream_anthropic_sse uuid4_hex stream model))
   \<and> starts_when_closed {} (stream_anthropic_sse uuid4_hex stream model)
   \<and> stream_anthropic_sse uuid4_hex
       ([tool_chunk 0 (Some ''T0'') (Some ''f'') None,
         tool_chunk 0 None None (Some ''{''),
         tool_chunk 0 None None (Some ''}''),
         tool_chunk 1 (Some ''T1'') (Some ''g'') None,
         tool_chunk 1 None None (Some ''{}''),
         finish_chunk ''tool_calls''], e) model =
     [MessageStart (''msg_'' @ take 24 (uuid4_hex 0)) model, Ping,
      ContentBlockStart 0 (ToolUseBlock ''T0'' ''f''),
      ContentBlockDelta 0 (InputJsonDelta ''{''),
      ContentBlockDelta 0 (InputJsonDelta ''}''),
      ContentBlockStop 0,
      ContentBlockStart 1 (ToolUseBlock ''T1'' ''g''),
      ContentBlockDelta 1 (InputJsonDelta ''{}''),
      ContentBlockStop 1,
      MessageDelta ''tool_use'' 0,
      MessageStop]"
proof -
  obtain n where n: "start_indices (stream_anthropic_sse uuid4_hex stream model) = [0 ..< n]"
    and c: "starts_when_closed {} (stream_anthropic_sse uuid4_hex stream model)"
    using start_indices_stream by blast
  have ex: "stream_anthropic_sse uuid4_hex
       ([tool_chunk 0 (Some ''T0'') (Some ''f'') None,
         tool_chunk 0 None None (Some ''{''),
         tool_chunk 0 None None (Some ''}''),
         tool_chunk 1 (Some ''T1'') (Some ''g'') None,
         tool_chunk 1 None None (Some ''{}''),
         finish_chunk ''tool_calls''], e) model =
     [MessageStart (''msg_'' @ take 24 (uuid4_hex 0)) model, Ping,
      ContentBlockStart 0 (ToolUseBlock ''T0'' ''f''),
      ContentBlockDelta 0 (InputJsonDelta ''{''),
      ContentBlockDelta 0 (InputJsonDelta ''}''),
      ContentBlockStop 0,
      ContentBlockStart 1 (ToolUseBlock ''T1'' ''g''),
      ContentBlockDelta 1 (InputJsonDelta ''{}''),
      ContentBlockStop 1,
      MessageDelta ''tool_use'' 0,
      MessageStop]"
    by (simp add: stream_defs)
  from n c ex show ?thesis by simp
qed

section \<open>The request to the backend: facts\<close>

text \<open>What a request that was built went through, step by step.\<close>

lemma build_call_kwargsE:
  assumes "build_call_kwargs py body api_base auth_token model stream = Some (kwargs, n)"
  obtains system system_text anthropic_messages translated tools oai_tools choice max_tokens
    temperature0 temperature top_p
  where "py_get body ''system'' JNull = Some system"
    and "system_text_of py system = Some system_text"
    and "py_get body ''messages'' (JArr []) = Some anthropic_messages"
    and "translate_messages_to_openai py 0 anthropic_messages = Some (translated, n)"
    and "py_get body ''tools'' JNull = Some tools"
    and "translate_tools_to_openai tools = Some oai_tools"
    and "py_get body ''tool_choice'' JNull = Some choice"
    and "py_get body ''max_tokens'' (JInt 4096) = Some max_tokens"
    and "py_get body ''temperature'' (JFloat 1) = Some temperature0"
    and "clamp_temperature oai_tools temperature0 = Some temperature"
    and "py_get body ''top_p'' JNull = Some top_p"
    and "kwargs =
           [(''model'', JStr (''openai/'' @ format_value py model)),
            (''messages'', JArr (system_message system_text # translated)),
            (''max_tokens'', max_tokens),
            (''temperature'', temperature),
            (''api_base'', api_base),
            (''api_key'', auth_token),
            (''stream'', stream)]
           @ (if top_p \<noteq> JNull then [(''top_p'', top_p)] else [])
           @ (if truthy oai_tools then [(''tools'', oai_tools)] else [])
           @ (if translate_tool_choice choice \<noteq> JNull \<and> truthy oai_tools
              then [(''tool_choice'', translate_tool_choice choice)]
              else if truthy oai_tools \<and> translate_tool_choice choice = JNull
              then [(''tool_choice'', JStr ''auto'')]
              else [])"
  using assms unfolding build_call_kwargs_def
  by (auto split: bind_splits prod.splits)

lemma clamp_temperature_result:
  "clamp_temperature oai_tools t = Some t' \<Longrightarrow>
     t' = (if truthy oai_tools \<and> py_gt t (6 / 10) = Some True then JFloat (6 / 10) else t)"
  by (auto simp: clamp_temperature_def split: if_splits option.splits)

lemmas request_defs =
  build_call_kwargs_def system_text_of_def translate_messages_to_openai_def
  translate_tools_to_openai_def tool_entry_def clamp_temperature_def lookup_def py_join_def

lemma system_text_of_result:
  "system_text_of py system = Some text \<Longrightarrow>
     (if is_str system \<or> is_list system \<or> truthy system
      then translate_system_prompt py system = Some text else text = [])"
  by (cases system) (auto simp: system_text_of_def py_join_def split: if_splits)

lemma prepare_call_early:
  "prepare_call py reg body = Some (Inl r) \<Longrightarrow> \<exists>code content. r = JSONResponse code content"
  unfolding prepare_call_def Let_def
  by (auto split: option.splits if_splits bind_splits prod.splits)

section \<open>The token estimate: the loops as sums\<close>

text \<open>
  Where the loops of \<^verbatim>\<open>_count_tokens_estimate\<close> run through without raising, they add up
  what the sums say.
\<close>

lemma sum_option_sum_list:
  assumes "\<And>x k. f x = Some k \<Longrightarrow> g x = k"
  shows "sum_option f xs = Some n \<Longrightarrow> n = sum_list (map g xs)"
proof (induction xs arbitrary: n)
  case Nil
  then show ?case by simp
next
  case (Cons x xs)
  from Cons.prems obtain k m where k: "f x = Some k" and m: "sum_option f xs = Some m"
    and n: "n = k + m"
    by (auto split: option.splits)
  from assms[OF k] Cons.IH[OF m] n show ?case by simp
qed

lemma system_block_chars_total:
  "system_block_chars b = Some k \<Longrightarrow>
     (if is_dict b then len_of (block_field ''text'' (JStr []) b) else 0) = k"
  by (cases b) (auto simp: len_of_def)

lemma system_chars_total: "system_chars system = Some k \<Longrightarrow> system_total system = k"
proof (cases system)
  case (JArr blocks)
  assume "system_chars system = Some k"
  with JArr have "sum_option system_block_chars blocks = Some k" by simp
  from sum_option_sum_list[of system_block_chars
      "\<lambda>b. if is_dict b then len_of (block_field ''text'' (JStr []) b) else 0", OF _ this]
    system_block_chars_total
  show ?thesis using JArr by simp
qed auto

lemma content_block_chars_total: "content_block_chars py b = Some k \<Longrightarrow> block_total py b = k"
  by (cases b) (auto simp: len_of_def block_total_def split: option.splits)

lemma content_chars_total: "content_chars py content = Some k \<Longrightarrow> content_total py content = k"
proof (cases content)
  case (JArr blocks)
  assume "content_chars py content = Some k"
  with JArr have "sum_option (content_block_chars py) blocks = Some k" by simp
  from sum_option_sum_list[of "content_block_chars py" "block_total py", OF _ this]
    content_block_chars_total
  show ?thesis using JArr by simp
qed auto

lemma message_chars_total:
  "message_chars py msg = Some k \<Longrightarrow>
     content_total py (block_field ''content'' (JStr []) msg) = k"
  by (cases msg) (auto simp: message_chars_def content_chars_total lookup_def split: option.splits)

lemma total_chars_sums:
  assumes "total_chars py body = Some t"
  shows "\<exists>kvs msgs. body = JObj kvs \<and>
           py_iter (lookup kvs ''messages'' (JArr [])) = Some msgs \<and>
           t = system_total (lookup kvs ''system'' (JStr [])) + messages_total py msgs"
proof -
  from assms obtain kvs where b: "body = JObj kvs"
    by (cases body) (simp_all add: total_chars_def)
  from assms b obtain s msgs m where
    s: "system_chars (lookup kvs ''system'' (JStr [])) = Some s"
    and i: "py_iter (lookup kvs ''messages'' (JArr [])) = Some msgs"
    and m: "sum_option (message_chars py) msgs = Some m"
    and t: "t = s + m"
    by (auto simp: total_chars_def lookup_def split: bind_splits)
  from sum_option_sum_list[of "message_chars py"
      "\<lambda>msg. content_total py (block_field ''content'' (JStr []) msg)", OF _ m]
    message_chars_total
  have "m = messages_total py msgs" by (simp add: messages_total_def)
  with system_chars_total[OF s] b i t show ?thesis by simp
qed

section \<open>The translation of a message: what the loop collects\<close>

text \<open>
  The loop over the blocks of a message appends to the three lists, block by block: the
  texts of the text blocks, an entry for each \<^verbatim>\<open>tool_use\<close> block, and a tool-role message
  for each \<^verbatim>\<open>tool_result\<close> block.
\<close>

lemma blocks_of_type_Cons:
  "blocks_of_type ty (b # bs) = (if has_type ty b then b # blocks_of_type ty bs else blocks_of_type ty bs)"
  by (simp add: blocks_of_type_def)

lemma blocks_of_type_Nil: "blocks_of_type ty [] = []"
  by (simp add: blocks_of_type_def)

lemma collect_blocks_lists:
  "collect_blocks py p bs = Some p' \<Longrightarrow>
     text_parts p' =
       text_parts p @ map (block_field ''text'' (JStr [])) (blocks_of_type ''text'' bs) \<and>
     (tool_calls p' = [] \<longleftrightarrow> tool_calls p = [] \<and> blocks_of_type ''tool_use'' bs = []) \<and>
     (\<exists>contents.
        map (\<lambda>b. result_text py (block_field ''content'' (JStr []) b))
          (blocks_of_type ''tool_result'' bs) = map Some contents \<and>
        tool_results p' =
          tool_results p @ map2 tool_message (blocks_of_type ''tool_result'' bs) contents)"
proof (induction bs arbitrary: p)
  case Nil
  then show ?case by (simp add: blocks_of_type_Nil)
next
  case (Cons b bs)
  show ?case
  proof (cases b)
    case (JObj kvs)
    consider (istext) "lookup kvs ''type'' JNull = JStr ''text''"
      | (isuse) "lookup kvs ''type'' JNull = JStr ''tool_use''"
      | (isresult) "lookup kvs ''type'' JNull = JStr ''tool_result''"
      | (other) "lookup kvs ''type'' JNull \<noteq> JStr ''text''"
          "lookup kvs ''type'' JNull \<noteq> JStr ''tool_use''"
          "lookup kvs ''type'' JNull \<noteq> JStr ''tool_result''"
      by blast
    then show ?thesis
    proof cases
      case istext
      with Cons.prems JObj have
        "collect_blocks py (p\<lparr>text_parts := text_parts p @ [lookup kvs ''text'' (JStr [])]\<rparr>) bs
           = Some p'" by simp
      from Cons.IH[OF this] JObj istext show ?thesis
        by (simp add: blocks_of_type_Cons)
    next
      case isuse
      with Cons.prems JObj have
        "collect_blocks py (p\<lparr>tool_calls := tool_calls p @ [tool_call_entry py (drawn p) kvs],
                drawn := drawn p + 1\<rparr>) bs = Some p'" by simp
      from Cons.IH[OF this] JObj isuse show ?thesis
        by (simp add: blocks_of_type_Cons)
    next
      case isresult
      with Cons.prems JObj obtain m where m: "tool_result_message py kvs = Some m"
        and c: "collect_blocks py (p\<lparr>tool_results := tool_results p @ [m]\<rparr>) bs = Some p'"
        by (auto split: option.splits)
      from m obtain c0 where c0: "result_text py (lookup kvs ''content'' (JStr [])) = Some c0"
        and m': "m = tool_message b c0"
        by (auto simp: tool_result_message_def tool_message_def JObj split: option.splits)
      from Cons.IH[OF c] obtain contents where
        t: "text_parts p' =
              text_parts p @ map (block_field ''text'' (JStr [])) (blocks_of_type ''text'' bs)"
        and u: "(tool_calls p' = []) = (tool_calls p = [] \<and> blocks_of_type ''tool_use'' bs = [])"
        and r1: "map (\<lambda>b. result_text py (block_field ''content'' (JStr []) b))
                  (blocks_of_type ''tool_result'' bs) = map Some contents"
        and r2: "tool_results p' =
              (tool_results p @ [m]) @ map2 tool_message (blocks_of_type ''tool_result'' bs) contents"
        by auto
      have r1': "map (\<lambda>b. result_text py (block_field ''content'' (JStr []) b))
              (blocks_of_type ''tool_result'' (b # bs)) = map Some (c0 # contents)"
        using JObj isresult c0 r1 by (simp add: blocks_of_type_Cons)
      have r2': "tool_results p' =
          tool_results p @ map2 tool_message (blocks_of_type ''tool_result'' (b # bs)) (c0 # contents)"
        using JObj isresult r2 m' by (simp add: blocks_of_type_Cons)
      have t': "text_parts p' =
          text_parts p @ map (block_field ''text'' (JStr [])) (blocks_of_type ''text'' (b # bs))"
        using JObj isresult t by (simp add: blocks_of_type_Cons)
      have u': "(tool_calls p' = []) =
          (tool_calls p = [] \<and> blocks_of_type ''tool_use'' (b # bs) = [])"
        using JObj isresult u by (simp add: blocks_of_type_Cons)
      from t' u' r1' r2' show ?thesis by blast
    next
      case other
      with Cons.prems JObj have "collect_blocks py p bs = Some p'" by simp
      from Cons.IH[OF this] JObj other show ?thesis
        by (simp add: blocks_of_type_Cons)
    qed
  next
    case JNull
    with Cons.prems have "collect_blocks py p bs = Some p'" by simp
    from Cons.IH[OF this] JNull show ?thesis by (simp add: blocks_of_type_Cons)
  next
    case (JBool x)
    with Cons.prems have "collect_blocks py p bs = Some p'" by simp
    from Cons.IH[OF this] JBool show ?thesis by (simp add: blocks_of_type_Cons)
  next
    case (JInt x)
    with Cons.prems have "collect_blocks py p bs = Some p'" by simp
    from Cons.IH[OF this] JInt show ?thesis by (simp add: blocks_of_type_Cons)
  next
    case (JFloat x)
    with Cons.prems have "collect_blocks py p bs = Some p'" by simp
    from Cons.IH[OF this] JFloat show ?thesis by (simp add: blocks_of_type_Cons)
  next
    case (JStr x)
    with Cons.prems have "collect_blocks py p bs = Some p'" by simp
    from Cons.IH[OF this] JStr show ?thesis by (simp add: blocks_of_type_Cons)
  next
    case (JArr x)
    with Cons.prems have "collect_blocks py p bs = Some p'" by simp
    from Cons.IH[OF this] JArr show ?thesis by (simp add: blocks_of_type_Cons)
  qed
qed

lemma build_messages_results:
  assumes "build_messages role p = Some out"
    and "role \<noteq> JStr ''assistant'' \<or> tool_calls p = []"
    and "tool_results p \<noteq> []"
  shows "\<exists>texts. strings_of (text_parts p) = Some texts \<and>
           out = text_then_results role (text_parts p \<noteq> []) (join newline texts) (tool_results p)"
proof (cases "text_parts p = []")
  case True
  with assms show ?thesis
    by (auto simp: build_messages_def text_then_results_def)
next
  case False
  with assms show ?thesis
    by (auto simp: build_messages_def text_then_results_def py_join_def)
qed

section \<open>Claims about the request to the backend\<close>

text \<open>
  C6. Whenever the handler builds a request for the backend, the first of its messages has
  the role \<^verbatim>\<open>system\<close> and the content \<open>COMPAT_PREAMBLE @ text\<close>, the preamble first and
  the system text after it, where \<open>text\<close> is \<^verbatim>\<open>_translate_system_prompt\<close> of the request's
  system value when that is a string, a list or any true value, and empty when the request
  has no system value (or \<^verbatim>\<open>null\<close>, \<^verbatim>\<open>false\<close>, zero or an empty dict in its place). A
  request with no system field gets the preamble alone; one with the system string
  \<^verbatim>\<open>Be brief.\<close> gets the preamble followed by that string.
\<close>

theorem C6_preamble_first:
  "(build_call_kwargs py body api_base auth_token model stream = Some (kwargs, n) \<longrightarrow>
      (\<exists>system text rest.
         py_get body ''system'' JNull = Some system \<and>
         (if is_str system \<or> is_list system \<or> truthy system
          then translate_system_prompt py system = Some text else text = []) \<and>
         map_of kwargs ''messages'' =
           Some (JArr (JObj [(''role'', JStr ''system''),
                             (''content'', JStr (COMPAT_PREAMBLE @ text))] # rest)) \<and>
         take (length COMPAT_PREAMBLE) (COMPAT_PREAMBLE @ text) = COMPAT_PREAMBLE \<and>
         drop (length COMPAT_PREAMBLE) (COMPAT_PREAMBLE @ text) = text))
   \<and> (\<exists>kw k. build_call_kwargs py (JObj []) api_base auth_token model stream = Some (kw, k) \<and>
         map_of kw ''messages'' =
           Some (JArr [JObj [(''role'', JStr ''system''), (''content'', JStr COMPAT_PREAMBLE)]]))
   \<and> (\<exists>kw k. build_call_kwargs py (JObj [(''system'', JStr ''Be brief.'')])
                 api_base auth_token model stream = Some (kw, k) \<and>
         map_of kw ''messages'' =
           Some (JArr [JObj [(''role'', JStr ''system''),
                             (''content'', JStr (COMPAT_PREAMBLE @ ''Be brief.''))]]))"
proof (intro conjI impI)
  assume a: "build_call_kwargs py body api_base auth_token model stream = Some (kwargs, n)"
  from a show "\<exists>system text rest.
         py_get body ''system'' JNull = Some system \<and>
         (if is_str system \<or> is_list system \<or> truthy system
          then translate_system_prompt py system = Some text else text = []) \<and>
         map_of kwargs ''messages'' =
           Some (JArr (JObj [(''role'', JStr ''system''),
                             (''content'', JStr (COMPAT_PREAMBLE @ text))] # rest)) \<and>
         take (length COMPAT_PREAMBLE) (COMPAT_PREAMBLE @ text) = COMPAT_PREAMBLE \<and>
         drop (length COMPAT_PREAMBLE) (COMPAT_PREAMBLE @ text) = text"
  proof (rule build_call_kwargsE)
    fix system system_text anthropic_messages translated tools oai_tools choice max_tokens
      temperature0 temperature top_p
    assume s: "py_get body ''system'' JNull = Some system"
      and t: "system_text_of py system = Some system_text"
      and k: "kwargs =
           [(''model'', JStr (''openai/'' @ format_value py model)),
            (''messages'', JArr (system_message system_text # translated)),
            (''max_tokens'', max_tokens),
            (''temperature'', temperature),
            (''api_base'', api_base),
            (''api_key'', auth_token),
            (''stream'', stream)]
           @ (if top_p \<noteq> JNull then [(''top_p'', top_p)] else [])
           @ (if truthy oai_tools then [(''tools'', oai_tools)] else [])
           @ (if translate_tool_choice choice \<noteq> JNull \<and> truthy oai_tools
              then [(''tool_choice'', translate_tool_choice choice)]
              else if truthy oai_tools \<and> translate_tool_choice choice = JNull
              then [(''tool_choice'', JStr ''auto'')]
              else [])"
    have "map_of kwargs ''messages'' =
        Some (JArr (JObj [(''role'', JStr ''system''),
                          (''content'', JStr (COMPAT_PREAMBLE @ system_text))] # translated))"
      unfolding k by (simp add: system_message_def)
    with s system_text_of_result[OF t] show ?thesis by auto
  qed
qed (simp_all add: request_defs system_message_def)

text \<open>The request with two system text blocks: the preamble, then the two texts joined.\<close>

theorem C6_preamble_first_witness:
  "\<exists>kwargs n rest.
     build_call_kwargs example_python
       (JObj [(''system'', JArr [JObj [(''type'', JStr ''text''), (''text'', JStr ''Be brief.'')],
                                JObj [(''type'', JStr ''text''), (''text'', JStr ''Use tools.'')]])])
       (JStr ''http://backend'') (JStr ''key'') (JStr ''llama'') (JBool False) = Some (kwargs, n)
     \<and> map_of kwargs ''messages'' =
         Some (JArr (JObj [(''role'', JStr ''system''),
                           (''content'',
                              JStr (COMPAT_PREAMBLE @ ''Be brief.'' @ newline @ ''Use tools.''))]
                     # rest))"
proof -
  let ?body = "JObj [(''system'', JArr [JObj [(''type'', JStr ''text''), (''text'', JStr ''Be brief.'')],
                                JObj [(''type'', JStr ''text''), (''text'', JStr ''Use tools.'')]])]"
  obtain kwargs n where h: "build_call_kwargs example_python ?body
       (JStr ''http://backend'') (JStr ''key'') (JStr ''llama'') (JBool False) = Some (kwargs, n)"
    by (simp add: request_defs)
  from C6_preamble_first[of example_python "?body" "JStr ''http://backend''" "JStr ''key''"
      "JStr ''llama''" "JBool False" kwargs n] h
  obtain joined rest where
    "translate_system_prompt example_python
       (JArr [JObj [(''type'', JStr ''text''), (''text'', JStr ''Be brief.'')],
              JObj [(''type'', JStr ''text''), (''text'', JStr ''Use tools.'')]]) = Some joined"
    and "map_of kwargs ''messages'' =
           Some (JArr (JObj [(''role'', JStr ''system''),
                             (''content'', JStr (COMPAT_PREAMBLE @ joined))] # rest))"
    by (auto simp: lookup_def)
  moreover from this(1) have "joined = ''Be brief.'' @ newline @ ''Use tools.''"
    by (simp add: py_join_def lookup_def)
  ultimately show ?thesis using h by blast
qed

text \<open>
  C7. Whenever the handler builds a request for the backend, its temperature is the
  request's (1.0 when the request has none), unless the translated tools are there and the
  request's temperature is above 0.6; then it is 0.6. With a tool and 0.9 it is 0.6, with a
  tool and 0.4 it stays 0.4, without tools and with 0.9 it stays 0.9.
\<close>

theorem C7_temperature:
  "(build_call_kwargs py body api_base auth_token model stream = Some (kwargs, n) \<longrightarrow>
      (\<exists>tools oai_tools t.
         py_get body ''tools'' JNull = Some tools \<and>
         translate_tools_to_openai tools = Some oai_tools \<and>
         py_get body ''temperature'' (JFloat 1) = Some t \<and>
         map_of kwargs ''temperature'' =
           Some (if truthy oai_tools \<and> py_gt t (6 / 10) = Some True
                 then JFloat (6 / 10) else t)))
   \<and> (\<exists>kw k. build_call_kwargs py
          (JObj [(''tools'', JArr [JObj [(''name'', JStr ''Bash'')]]),
                 (''temperature'', JFloat (9 / 10))]) api_base auth_token model stream
          = Some (kw, k) \<and> map_of kw ''temperature'' = Some (JFloat (6 / 10)))
   \<and> (\<exists>kw k. build_call_kwargs py
          (JObj [(''tools'', JArr [JObj [(''name'', JStr ''Bash'')]]),
                 (''temperature'', JFloat (4 / 10))]) api_base auth_token model stream
          = Some (kw, k) \<and> map_of kw ''temperature'' = Some (JFloat (4 / 10)))
   \<and> (\<exists>kw k. build_call_kwargs py
          (JObj [(''temperature'', JFloat (9 / 10))]) api_base auth_token model stream
          = Some (kw, k) \<and> map_of kw ''temperature'' = Some (JFloat (9 / 10)))"
proof (intro conjI impI)
  assume a: "build_call_kwargs py body api_base auth_token model stream = Some (kwargs, n)"
  from a show "\<exists>tools oai_tools t.
         py_get body ''tools'' JNull = Some tools \<and>
         translate_tools_to_openai tools = Some oai_tools \<and>
         py_get body ''temperature'' (JFloat 1) = Some t \<and>
         map_of kwargs ''temperature'' =
           Some (if truthy oai_tools \<and> py_gt t (6 / 10) = Some True
                 then JFloat (6 / 10) else t)"
  proof (rule build_call_kwargsE)
    fix system system_text anthropic_messages translated tools oai_tools choice max_tokens
      temperature0 temperature top_p
    assume t: "py_get body ''tools'' JNull = Some tools"
      and o: "translate_tools_to_openai tools = Some oai_tools"
      and t0: "py_get body ''temperature'' (JFloat 1) = Some temperature0"
      and c: "clamp_temperature oai_tools temperature0 = Some temperature"
      and k: "kwargs =
           [(''model'', JStr (''openai/'' @ format_value py model)),
            (''messages'', JArr (system_message system_text # translated)),
            (''max_tokens'', max_tokens),
            (''temperature'', temperature),
            (''api_base'', api_base),
            (''api_key'', auth_token),
            (''stream'', stream)]
           @ (if top_p \<noteq> JNull then [(''top_p'', top_p)] else [])
           @ (if truthy oai_tools then [(''tools'', oai_tools)] else [])
           @ (if translate_tool_choice choice \<noteq> JNull \<and> truthy oai_tools
              then [(''tool_choice'', translate_tool_choice choice)]
              else if truthy oai_tools \<and> translate_tool_choice choice = JNull
              then [(''tool_choice'', JStr ''auto'')]
              else [])"
    have "map_of kwargs ''temperature'' = Some temperature"
      unfolding k by simp
    with clamp_temperature_result[OF c] t o t0 show ?thesis by blast
  qed
qed (simp_all add: request_defs)

text \<open>A request with a tool and the integer temperature 1.\<close>

theorem C7_temperature_witness:
  "\<exists>kwargs n.
     build_call_kwargs example_python
       (JObj [(''tools'', JArr [JObj [(''name'', JStr ''Read'')]]), (''temperature'', JInt 1)])
       (JStr ''http://backend'') (JStr ''key'') (JStr ''llama'') (JBool False) = Some (kwargs, n)
     \<and> map_of kwargs ''temperature'' = Some (JFloat (6 / 10))"
proof -
  obtain kwargs n where h: "build_call_kwargs example_python
       (JObj [(''tools'', JArr [JObj [(''name'', JStr ''Read'')]]), (''temperature'', JInt 1)])
       (JStr ''http://backend'') (JStr ''key'') (JStr ''llama'') (JBool False) = Some (kwargs, n)"
    by (simp add: request_defs)
  from C7_temperature[of example_python
       "JObj [(''tools'', JArr [JObj [(''name'', JStr ''Read'')]]), (''temperature'', JInt 1)]"
       "JStr ''http://backend''" "JStr ''key''" "JStr ''llama''" "JBool False" kwargs n] h
  have "map_of kwargs ''temperature'' = Some (JFloat (6 / 10))"
    by (auto simp: request_defs)
  with h show ?thesis by blast
qed

section \<open>Claims about the handlers\<close>

text \<open>
  C9. When the import of litellm failed, \<^verbatim>\<open>POST /proxy/v1/messages\<close> answers 501 with
  the error type \<^verbatim>\<open>not_implemented\<close>, whatever the body (parsed or not) and whatever the
  registry holds: neither is looked at. \<^verbatim>\<open>POST /proxy/v1/messages/count_tokens\<close> answers
  as it does with litellm; for the body with the system string \<^verbatim>\<open>abcd\<close> alone the answer
  is 200 with \<^verbatim>\<open>input_tokens\<close> 1.
\<close>

theorem C9_without_litellm:
  "proxy_messages py None reg request_json =
     Some (JSONResponse 501
             (JObj [(''error'',
                     JObj [(''type'', JStr ''not_implemented''),
                           (''message'',
                            JStr ''litellm is not installed. Run: pip install litellm'')])]))
   \<and> route_post py None reg ''/proxy/v1/messages'' request_json =
       Some (JSONResponse 501
               (JObj [(''error'',
                       JObj [(''type'', JStr ''not_implemented''),
                             (''message'',
                              JStr ''litellm is not installed. Run: pip install litellm'')])]))
   \<and> route_post py None reg ''/proxy/v1/messages/count_tokens'' request_json =
       route_post py litellm reg ''/proxy/v1/messages/count_tokens'' request_json
   \<and> route_post py None reg ''/proxy/v1/messages/count_tokens''
         (Some (JObj [(''system'', JStr ''abcd'')])) =
       Some (JSONResponse 200 (JObj [(''input_tokens'', JInt 1)]))"
  by (simp add: proxy_messages_def route_post_def error_content_def proxy_count_tokens_def
      count_tokens_estimate_def total_chars_def lookup_def)

text \<open>
  C10. When the handler has reached the call of the backend and the call raises, the
  answer is a JSON response with status 502 and error type \<^verbatim>\<open>proxy_error\<close>, whether the
  request asked for a stream or not; its message is the text of the exception, or the
  authentication notice when that text contains \<^verbatim>\<open>AuthenticationError\<close> or \<^verbatim>\<open>401\<close>. A
  streaming response is only ever returned after the call of the backend has returned.
\<close>

theorem C10_backend_call_fails:
  "(prepare_call py reg body = Some (Inr p) \<and> acompletion (the_kwargs p) = Inl error_msg \<longrightarrow>
      proxy_messages py (Some acompletion) reg (Some body) =
        Some (JSONResponse 502
                (JObj [(''error'',
                        JObj [(''type'', JStr ''proxy_error''),
                              (''message'',
                               JStr (if contains ''AuthenticationError'' error_msg
                                        \<or> contains ''401'' error_msg
                                     then ''Authentication failed with ''
                                          @ format_value py (the_provider_id p)
                                          @ ''. Check your API key.''
                                     else error_msg))])])))
   \<and> (proxy_messages py litellm reg request_json = Some (StreamingResponse evs) \<longrightarrow>
        (\<exists>acompletion body p reply.
           litellm = Some acompletion \<and> request_json = Some body \<and>
           prepare_call py reg body = Some (Inr p) \<and>
           acompletion (the_kwargs p) = Inr reply \<and> truthy (the_stream p)))"
proof (intro conjI impI)
  assume "prepare_call py reg body = Some (Inr p) \<and> acompletion (the_kwargs p) = Inl error_msg"
  then show "proxy_messages py (Some acompletion) reg (Some body) =
        Some (JSONResponse 502
                (JObj [(''error'',
                        JObj [(''type'', JStr ''proxy_error''),
                              (''message'',
                               JStr (if contains ''AuthenticationError'' error_msg
                                        \<or> contains ''401'' error_msg
                                     then ''Authentication failed with ''
                                          @ format_value py (the_provider_id p)
                                          @ ''. Check your API key.''
                                     else error_msg))])]))"
    by (simp add: proxy_messages_def call_backend_def error_content_def proxy_error_message_def)
next
  assume s: "proxy_messages py litellm reg request_json = Some (StreamingResponse evs)"
  then obtain acompletion where l: "litellm = Some acompletion"
    by (cases litellm) (simp_all add: proxy_messages_def)
  from s l obtain body where b: "request_json = Some body"
    by (cases request_json) (simp_all add: proxy_messages_def)
  from s l b obtain p where p: "prepare_call py reg body = Some (Inr p)"
    and c: "call_backend py acompletion p = Some (StreamingResponse evs)"
    using prepare_call_early[of py reg body]
    by (auto simp: proxy_messages_def split: option.splits sum.splits)
  from c obtain reply where "acompletion (the_kwargs p) = Inr reply" "truthy (the_stream p)"
    by (auto simp: call_backend_def split: sum.splits if_splits backend_reply.splits)
  with l b p show "\<exists>acompletion body p reply.
           litellm = Some acompletion \<and> request_json = Some body \<and>
           prepare_call py reg body = Some (Inr p) \<and>
           acompletion (the_kwargs p) = Inr reply \<and> truthy (the_stream p)"
    by blast
qed

text \<open>
  A request with \<^verbatim>\<open>stream\<close> true, once against a backend whose call raises an
  authentication error and once against one that returns an empty stream.
\<close>

theorem C10_backend_call_fails_witness:
  "proxy_messages example_python (Some (\<lambda>kwargs. Inl ''AuthenticationError: key rejected''))
     \<lparr>all_settings = [(''api_provider'', JStr ''ionos'')],
      api_providers = [(''ionos'', JObj [(''base_url'', JStr ''http://backend'')])]\<rparr>
     (Some (JObj [(''stream'', JBool True)])) =
   Some (JSONResponse 502
           (JObj [(''error'',
                   JObj [(''type'', JStr ''proxy_error''),
                         (''message'',
                          JStr ''Authentication failed with ionos. Check your API key.'')])]))
   \<and> (\<exists>evs p reply.
         proxy_messages example_python (Some (\<lambda>kwargs. Inr (Stream ([], Exhausted))))
           \<lparr>all_settings = [(''api_provider'', JStr ''ionos'')],
            api_providers = [(''ionos'', JObj [(''base_url'', JStr ''http://backend'')])]\<rparr>
           (Some (JObj [(''stream'', JBool True)])) = Some (StreamingResponse evs)
         \<and> prepare_call example_python
             \<lparr>all_settings = [(''api_provider'', JStr ''ionos'')],
              api_providers = [(''ionos'', JObj [(''base_url'', JStr ''http://backend'')])]\<rparr>
             (JObj [(''stream'', JBool True)]) = Some (Inr p)
         \<and> (\<lambda>kwargs. Inr (Stream ([], Exhausted))) (the_kwargs p) = Inr reply
         \<and> truthy (the_stream p))"
proof -
  let ?reg = "\<lparr>all_settings = [(''api_provider'', JStr ''ionos'')],
      api_providers = [(''ionos'', JObj [(''base_url'', JStr ''http://backend'')])]\<rparr>"
  let ?body = "JObj [(''stream'', JBool True)]"
  let ?fail = "\<lambda>kwargs :: (string \<times> json) list.
                 (Inl ''AuthenticationError: key rejected'' :: string + backend_reply)"
  let ?ok = "\<lambda>kwargs :: (string \<times> json) list.
                 (Inr (Stream ([], Exhausted)) :: string + backend_reply)"
  obtain p where p: "prepare_call example_python ?reg ?body = Some (Inr p)"
    and i: "the_provider_id p = JStr ''ionos''" and s: "the_stream p = JBool True"
    by (simp add: prepare_call_def request_defs)
  have c: "contains ''AuthenticationError'' ''AuthenticationError: key rejected''"
    by simp
  have 1: "proxy_messages example_python (Some ?fail) ?reg (Some ?body) =
   Some (JSONResponse 502
           (JObj [(''error'',
                   JObj [(''type'', JStr ''proxy_error''),
                         (''message'',
                          JStr ''Authentication failed with ionos. Check your API key.'')])]))"
    using C10_backend_call_fails[of example_python ?reg ?body p ?fail
        "''AuthenticationError: key rejected''"] p i c
    by simp
  have "\<exists>evs. proxy_messages example_python (Some ?ok) ?reg (Some ?body)
          = Some (StreamingResponse evs)"
    using p s by (simp add: proxy_messages_def call_backend_def)
  then obtain evs where e: "proxy_messages example_python (Some ?ok) ?reg (Some ?body)
          = Some (StreamingResponse evs)" by blast
  from C10_backend_call_fails[of example_python ?reg ?body p ?fail
        "''AuthenticationError: key rejected''" "Some ?ok" "Some ?body" evs] e
  obtain p' reply where "prepare_call example_python ?reg ?body = Some (Inr p')"
    and "?ok (the_kwargs p') = Inr reply" and "truthy (the_stream p')"
    by auto
  with 1 e show ?thesis by blast
qed

section \<open>Claims about the token estimate\<close>

text \<open>
  C8, as the claim words it. The claim takes the system part of the total to be the length
  of the system text as \<^verbatim>\<open>_translate_system_prompt\<close> flattens it, and the part of a block
  list to be the text of its text blocks and the serialized input of its tool inputs. The
  code differs on both. For the system list with the text blocks \<^verbatim>\<open>abcd\<close> and
  \<^verbatim>\<open>efg\<close> it counts 7 characters, not the 8 of the text joined by a newline: the
  estimate is 1, not 2. For a message with the one text block \<^verbatim>\<open>abcdef\<close> it counts 8, the
  6 of the text and the 2 of \<^verbatim>\<open>json.dumps("")\<close> for the input that the block does not
  have: the estimate is 2, not 1.
\<close>

theorem C8_token_estimate_counterexample:
  "count_tokens_estimate example_python
     (JObj [(''system'',
             JArr [JObj [(''type'', JStr ''text''), (''text'', JStr ''abcd'')],
                   JObj [(''type'', JStr ''text''), (''text'', JStr ''efg'')]])]) = Some 1
   \<and> claimed_estimate example_python
       (JArr [JObj [(''type'', JStr ''text''), (''text'', JStr ''abcd'')],
              JObj [(''type'', JStr ''text''), (''text'', JStr ''efg'')]]) [] = 2
   \<and> count_tokens_estimate example_python
       (JObj [(''messages'',
               JArr [JObj [(''role'', JStr ''user''),
                           (''content'', JArr [JObj [(''type'', JStr ''text''),
                                                     (''text'', JStr ''abcdef'')]])]])]) = Some 2
   \<and> claimed_estimate example_python (JStr [])
       [JObj [(''role'', JStr ''user''),
              (''content'', JArr [JObj [(''type'', JStr ''text''),
                                        (''text'', JStr ''abcdef'')]])]] = 1"
  by (simp add: count_tokens_estimate_def total_chars_def message_chars_def lookup_def
      json_string_def claimed_estimate_def claimed_system_total_def py_join_def newline_def
      len_of_def)

text \<open>
  C8, amended. Whenever the estimate is computed, the body is a dict and the estimate is
  the total divided by 4, rounded down, and at least 1, where the total is: for a system
  string its length, for a system list the lengths of the \<^verbatim>\<open>"text"\<close> values of its dict
  blocks with nothing between them, and nothing for any other system value; and for each
  message the length of a string content or, for a list content, for each dict block the
  length of its \<^verbatim>\<open>"text"\<close> (empty when absent) and the length of the JSON serialization of
  its \<^verbatim>\<open>"input"\<close> (of the empty string when absent). The estimate does not decrease when
  the total grows, and a body with only a system string of length 4 gives 1.
\<close>

theorem C8_token_estimate:
  "(count_tokens_estimate py body = Some n \<longrightarrow>
      (\<exists>kvs msgs. body = JObj kvs \<and>
         py_iter (lookup kvs ''messages'' (JArr [])) = Some msgs \<and>
         n = max 1 ((system_total (lookup kvs ''system'' (JStr [])) + messages_total py msgs)
                    div 4) \<and>
         1 \<le> n))
   \<and> (total_chars py b1 = Some t1 \<and> total_chars py b2 = Some t2 \<and> t1 \<le> t2 \<longrightarrow>
        (\<exists>n1 n2. count_tokens_estimate py b1 = Some n1 \<and>
                  count_tokens_estimate py b2 = Some n2 \<and> n1 \<le> n2))
   \<and> (length s = 4 \<longrightarrow> count_tokens_estimate py (JObj [(''system'', JStr s)]) = Some 1)"
proof (intro conjI impI)
  assume "count_tokens_estimate py body = Some n"
  then obtain t where t: "total_chars py body = Some t" and n: "n = max 1 (t div 4)"
    by (auto simp: count_tokens_estimate_def)
  from total_chars_sums[OF t] n
  show "\<exists>kvs msgs. body = JObj kvs \<and>
         py_iter (lookup kvs ''messages'' (JArr [])) = Some msgs \<and>
         n = max 1 ((system_total (lookup kvs ''system'' (JStr [])) + messages_total py msgs)
                    div 4) \<and>
         1 \<le> n"
    by auto
next
  assume "total_chars py b1 = Some t1 \<and> total_chars py b2 = Some t2 \<and> t1 \<le> t2"
  then have "count_tokens_estimate py b1 = Some (max 1 (t1 div 4))"
    and "count_tokens_estimate py b2 = Some (max 1 (t2 div 4))"
    and "max 1 (t1 div 4) \<le> max 1 (t2 div 4)"
    by (auto simp: count_tokens_estimate_def intro: div_le_mono le_max_iff_disj[THEN iffD2])
  then show "\<exists>n1 n2. count_tokens_estimate py b1 = Some n1 \<and>
                  count_tokens_estimate py b2 = Some n2 \<and> n1 \<le> n2"
    by blast
next
  assume "length s = 4"
  then show "count_tokens_estimate py (JObj [(''system'', JStr s)]) = Some 1"
    by (simp add: count_tokens_estimate_def total_chars_def)
qed

text \<open>
  A body with a system string and one text block (17 characters in total), and the body
  with the system string \<^verbatim>\<open>abcd\<close> alone.
\<close>

theorem C8_token_estimate_witness:
  "count_tokens_estimate example_python
     (JObj [(''system'', JStr ''Be brief.''),
            (''messages'',
             JArr [JObj [(''role'', JStr ''user''),
                         (''content'', JArr [JObj [(''type'', JStr ''text''),
                                                   (''text'', JStr ''abcdef'')]])]])]) = Some 4
   \<and> count_tokens_estimate example_python (JObj [(''system'', JStr ''abcd'')]) = Some 1
   \<and> (1::nat) \<le> 4"
proof -
  let ?big = "JObj [(''system'', JStr ''Be brief.''),
            (''messages'',
             JArr [JObj [(''role'', JStr ''user''),
                         (''content'', JArr [JObj [(''type'', JStr ''text''),
                                                   (''text'', JStr ''abcdef'')]])]])]"
  let ?small = "JObj [(''system'', JStr ''abcd'')]"
  have t2: "total_chars example_python ?big = Some 17"
    by (simp add: total_chars_def message_chars_def lookup_def json_string_def)
  have t1: "total_chars example_python ?small = Some 4"
    by (simp add: total_chars_def lookup_def)
  have e: "count_tokens_estimate example_python ?big = Some 4"
    using t2 by (simp add: count_tokens_estimate_def)
  from C8_token_estimate[of example_python ?big 4 ?small 4 ?big 17 "''abcd''"] e t1 t2
  show ?thesis by auto
qed

section \<open>Claims about the translation of messages\<close>

lemmas message_defs =
  translate_messages_to_openai_def translate_message_def build_messages_def
  tool_result_message_def lookup_def py_join_def

text \<open>
  C5, as the claim words it: the message of the role comes only if the text is not empty.
  The code looks at the list of text parts, not at the text: for a message with a text
  block whose text is empty and one \<^verbatim>\<open>tool_result\<close> block, the list has one element, the
  joined text is empty, and the message of the role is sent with the empty content, before
  the tool-role message. Going by the text, the tool-role message would have come alone.
\<close>

theorem C5_tool_results_counterexample:
  "translate_messages_to_openai example_python 0
     (JArr [JObj [(''role'', JStr ''user''),
                  (''content'',
                   JArr [JObj [(''type'', JStr ''text''), (''text'', JStr [])],
                         JObj [(''type'', JStr ''tool_result''),
                               (''tool_use_id'', JStr ''T1''),
                               (''content'', JStr ''ok'')]])]]) =
   Some ([JObj [(''role'', JStr ''user''), (''content'', JStr [])],
          JObj [(''role'', JStr ''tool''), (''tool_call_id'', JStr ''T1''),
                (''content'', JStr ''ok'')]], 0)
   \<and> py_join newline [JStr []] = Some []
   \<and> text_then_results (JStr ''user'') (join newline [[]] \<noteq> []) (join newline [[]])
         [JObj [(''role'', JStr ''tool''), (''tool_call_id'', JStr ''T1''),
                (''content'', JStr ''ok'')]] =
       [JObj [(''role'', JStr ''tool''), (''tool_call_id'', JStr ''T1''),
              (''content'', JStr ''ok'')]]"
  by (simp add: message_defs text_then_results_def)

text \<open>
  C5, amended. For a message whose content is a list with at least one \<^verbatim>\<open>tool_result\<close>
  block, and which is not an assistant message with \<^verbatim>\<open>tool_use\<close> blocks, whenever the
  translation goes through: the output is a message of the same role with the texts of the
  text blocks joined by newlines, if the list has at least one text block (its text may be
  empty), and then one tool-role message for each \<^verbatim>\<open>tool_result\<close> block, in the order of
  the blocks, with the block's \<^verbatim>\<open>tool_use_id\<close> as \<^verbatim>\<open>tool_call_id\<close> and the flattened
  content as content. A message with one \<^verbatim>\<open>tool_result\<close> for \<^verbatim>\<open>T1\<close> and no text gives
  the one tool-role message; a message with one text block and one \<^verbatim>\<open>tool_result\<close> gives
  two messages, the text first.
\<close>

theorem C5_tool_results:
  "(translate_message py n msg = Some (out, n') \<and>
    py_get msg ''role'' (JStr ''user'') = Some role \<and>
    py_get msg ''content'' JNull = Some (JArr blocks) \<and>
    (role \<noteq> JStr ''assistant'' \<or> blocks_of_type ''tool_use'' blocks = []) \<and>
    blocks_of_type ''tool_result'' blocks \<noteq> [] \<longrightarrow>
      (\<exists>texts contents.
         strings_of (map (block_field ''text'' (JStr [])) (blocks_of_type ''text'' blocks))
           = Some texts \<and>
         map (\<lambda>b. result_text py (block_field ''content'' (JStr []) b))
           (blocks_of_type ''tool_result'' blocks) = map Some contents \<and>
         out = text_then_results role (blocks_of_type ''text'' blocks \<noteq> [])
                 (join newline texts)
                 (map2 tool_message (blocks_of_type ''tool_result'' blocks) contents)))
   \<and> translate_messages_to_openai py n
         (JArr [JObj [(''role'', role'),
                      (''content'',
                       JArr [JObj [(''type'', JStr ''tool_result''),
                                   (''tool_use_id'', JStr ''T1''),
                                   (''content'', JStr c)]])]]) =
       Some ([JObj [(''role'', JStr ''tool''), (''tool_call_id'', JStr ''T1''),
                    (''content'', JStr c)]], n)
   \<and> translate_messages_to_openai py n
         (JArr [JObj [(''role'', role'),
                      (''content'',
                       JArr [JObj [(''type'', JStr ''text''), (''text'', JStr t)],
                             JObj [(''type'', JStr ''tool_result''),
                                   (''tool_use_id'', JStr ''T1''),
                                   (''content'', JStr c)]])]]) =
       Some ([JObj [(''role'', role'), (''content'', JStr t)],
              JObj [(''role'', JStr ''tool''), (''tool_call_id'', JStr ''T1''),
                    (''content'', JStr c)]], n)"
proof (intro conjI impI)
  assume a: "translate_message py n msg = Some (out, n') \<and>
    py_get msg ''role'' (JStr ''user'') = Some role \<and>
    py_get msg ''content'' JNull = Some (JArr blocks) \<and>
    (role \<noteq> JStr ''assistant'' \<or> blocks_of_type ''tool_use'' blocks = []) \<and>
    blocks_of_type ''tool_result'' blocks \<noteq> []"
  then obtain p where c: "collect_blocks py
        \<lparr>text_parts = [], tool_calls = [], tool_results = [], drawn = n\<rparr> blocks = Some p"
    and b: "build_messages role p = Some out"
    by (auto simp: translate_message_def split: bind_splits)
  from collect_blocks_lists[OF c] obtain contents where
    t: "text_parts p = map (block_field ''text'' (JStr [])) (blocks_of_type ''text'' blocks)"
    and u: "(tool_calls p = []) = (blocks_of_type ''tool_use'' blocks = [])"
    and r1: "map (\<lambda>b. result_text py (block_field ''content'' (JStr []) b))
               (blocks_of_type ''tool_result'' blocks) = map Some contents"
    and r2: "tool_results p = map2 tool_message (blocks_of_type ''tool_result'' blocks) contents"
    by auto
  from r1 have "length contents = length (blocks_of_type ''tool_result'' blocks)"
    by (metis length_map)
  with a r2 have ne: "tool_results p \<noteq> []" by (cases contents) auto
  from a u have "role \<noteq> JStr ''assistant'' \<or> tool_calls p = []" by blast
  from build_messages_results[OF b this ne] obtain texts where
    "strings_of (text_parts p) = Some texts"
    and "out = text_then_results role (text_parts p \<noteq> []) (join newline texts) (tool_results p)"
    by blast
  with t r1 r2 show "\<exists>texts contents.
         strings_of (map (block_field ''text'' (JStr [])) (blocks_of_type ''text'' blocks))
           = Some texts \<and>
         map (\<lambda>b. result_text py (block_field ''content'' (JStr []) b))
           (blocks_of_type ''tool_result'' blocks) = map Some contents \<and>
         out = text_then_results role (blocks_of_type ''text'' blocks \<noteq> [])
                 (join newline texts)
                 (map2 tool_message (blocks_of_type ''tool_result'' blocks) contents)"
    by auto
qed (simp_all add: message_defs)

text \<open>
  A user message with two text blocks and two \<^verbatim>\<open>tool_result\<close> blocks in between, the
  second with a list as content.
\<close>

theorem C5_tool_results_witness:
  "translate_message example_python 0
     (JObj [(''role'', JStr ''user''),
            (''content'',
             JArr [JObj [(''type'', JStr ''text''), (''text'', JStr ''first'')],
                   JObj [(''type'', JStr ''tool_result''), (''tool_use_id'', JStr ''T1''),
                         (''content'', JStr ''ok'')],
                   JObj [(''type'', JStr ''text''), (''text'', JStr ''second'')],
                   JObj [(''type'', JStr ''tool_result''), (''tool_use_id'', JStr ''T2''),
                         (''content'',
                          JArr [JObj [(''type'', JStr ''text''), (''text'', JStr ''a'')],
                                JStr ''b''])]])]) =
   Some ([JObj [(''role'', JStr ''user''), (''content'', JStr (''first'' @ newline @ ''second''))],
          JObj [(''role'', JStr ''tool''), (''tool_call_id'', JStr ''T1''),
                (''content'', JStr ''ok'')],
          JObj [(''role'', JStr ''tool''), (''tool_call_id'', JStr ''T2''),
                (''content'', JStr (''a'' @ newline @ ''b''))]], 0)"
proof -
  let ?blocks = "[JObj [(''type'', JStr ''text''), (''text'', JStr ''first'')],
                   JObj [(''type'', JStr ''tool_result''), (''tool_use_id'', JStr ''T1''),
                         (''content'', JStr ''ok'')],
                   JObj [(''type'', JStr ''text''), (''text'', JStr ''second'')],
                   JObj [(''type'', JStr ''tool_result''), (''tool_use_id'', JStr ''T2''),
                         (''content'',
                          JArr [JObj [(''type'', JStr ''text''), (''text'', JStr ''a'')],
                                JStr ''b''])]]"
  let ?msg = "JObj [(''role'', JStr ''user''), (''content'', JArr ?blocks)]"
  obtain out n' where h: "translate_message example_python 0 ?msg = Some (out, n')"
    and n': "n' = 0"
    by (simp add: message_defs)
  have g: "py_get ?msg ''role'' (JStr ''user'') = Some (JStr ''user'')"
    "py_get ?msg ''content'' JNull = Some (JArr ?blocks)"
    by simp_all
  have ty: "blocks_of_type ''tool_use'' ?blocks = []"
    "blocks_of_type ''tool_result'' ?blocks =
       [JObj [(''type'', JStr ''tool_result''), (''tool_use_id'', JStr ''T1''),
              (''content'', JStr ''ok'')],
        JObj [(''type'', JStr ''tool_result''), (''tool_use_id'', JStr ''T2''),
              (''content'',
               JArr [JObj [(''type'', JStr ''text''), (''text'', JStr ''a'')], JStr ''b''])]]"
    "blocks_of_type ''text'' ?blocks =
       [JObj [(''type'', JStr ''text''), (''text'', JStr ''first'')],
        JObj [(''type'', JStr ''text''), (''text'', JStr ''second'')]]"
    by (simp_all add: blocks_of_type_def lookup_def)
  have hyp: "translate_message example_python 0 ?msg = Some (out, n') \<and>
    py_get ?msg ''role'' (JStr ''user'') = Some (JStr ''user'') \<and>
    py_get ?msg ''content'' JNull = Some (JArr ?blocks) \<and>
    (JStr ''user'' \<noteq> JStr ''assistant'' \<or> blocks_of_type ''tool_use'' ?blocks = []) \<and>
    blocks_of_type ''tool_result'' ?blocks \<noteq> []"
    using h g ty by simp
  from C5_tool_results[of example_python 0 "?msg" out n' "JStr ''user''" "?blocks",
      THEN conjunct1, THEN mp, OF hyp]
  obtain texts contents where
    "strings_of (map (block_field ''text'' (JStr [])) (blocks_of_type ''text'' ?blocks))
           = Some texts"
    and "map (\<lambda>b. result_text example_python (block_field ''content'' (JStr []) b))
           (blocks_of_type ''tool_result'' ?blocks) = map Some contents"
    and "out = text_then_results (JStr ''user'') (blocks_of_type ''text'' ?blocks \<noteq> [])
                 (join newline texts)
                 (map2 tool_message (blocks_of_type ''tool_result'' ?blocks) contents)"
    by blast
  then have "out =
      [JObj [(''role'', JStr ''user''), (''content'', JStr (''first'' @ newline @ ''second''))],
       JObj [(''role'', JStr ''tool''), (''tool_call_id'', JStr ''T1''),
             (''content'', JStr ''ok'')],
       JObj [(''role'', JStr ''tool''), (''tool_call_id'', JStr ''T2''),
             (''content'', JStr (''a'' @ newline @ ''b''))]]"
    by (auto simp: ty lookup_def py_join_def text_then_results_def tool_message_def)
  with h n' show ?thesis by simp
qed

end
